theory Spec2Isabelle
  imports Main
begin

section \<open>cf-execd: the scheduling daemon of src/cf-execd/cf-execd.c\<close>

text \<open>
  The daemon is modelled by explicit state passing. Everything the C code keeps in
  process-wide variables or behind the pointers it is handed (the evaluation context, the
  policy, the two configuration objects, the signal flags) is a field of one record;
  every call that leaves the process (a log line, a system call, a collaborator that
  frees or loads something) is appended to a trace of effects, in program order.
  Collaborators whose code is not part of cf-execd.c are parameters (\<open>externals\<close>);
  values the code reads from the outside world during a call (a timestamp on disk, the
  result of a system call) are inputs of that call.
  \<open>time_t\<close> and \<open>pid_t\<close> values are integers; no arithmetic in this file comes
  near the range of the machine types.
\<close>

subsection \<open>Data model\<close>

datatype LogLevel =
  LOG_LEVEL_ERR | LOG_LEVEL_WARNING | LOG_LEVEL_NOTICE
| LOG_LEVEL_INFO | LOG_LEVEL_VERBOSE | LOG_LEVEL_DEBUG

text \<open>\<open>typedef enum { RELOAD_ENVIRONMENT, RELOAD_FULL } Reload;\<close>\<close>

datatype Reload = RELOAD_ENVIRONMENT | RELOAD_FULL

text \<open>\<open>struct timeval\<close>, as \<open>select\<close> takes it.\<close>

record timeval =
  tv_sec :: int
  tv_usec :: int

text \<open>
  What the process does to the outside world. \<open>Call\<close> names a collaborator that is
  invoked for its side effect and whose arguments play no role in this file.
\<close>

datatype 'xc effect =
  Log LogLevel string
| Call string
| SetFacility string
| AllowAccessForUsers_call string "string list" bool bool
| Select int timeval
| Accept int int
| Fork int
| Signal_call string string
| HandleRunagentRequest int "string option"
| Sleep_call int
| LocalExec 'xc
| Close int
| Unlink string

text \<open>The fields of \<open>ExecdConfig\<close> that cf-execd.c reads.\<close>

record ExecdConfig =
  schedule :: "string list"
  splay_time :: int
  local_run_command :: "string option"
  runagent_allow_users :: "string list"
  log_facility :: string

text \<open>The fields of \<open>GenericAgentConfig\<close> that cf-execd.c reads or writes.\<close>

record GenericAgentConfig =
  input_file :: string
  ignore_locks :: bool
  bundlesequence :: "string list option"
  last_validated_at :: int

record ('ctx, 'pol, 'xc) daemon =
  ctx :: 'ctx
  policy :: "'pol option"
  config :: GenericAgentConfig
  execd_config :: ExecdConfig
  exec_config :: 'xc
  reload_requested :: bool
  termination_pending :: bool
  VDOMAIN :: string
  RUNAGENT_SOCKET_DIR :: "string option"
  ONCE :: bool
  open_fds :: "int list"
  trace :: "'xc effect list"

definition emit :: "'xc effect \<Rightarrow> ('ctx, 'pol, 'xc) daemon \<Rightarrow> ('ctx, 'pol, 'xc) daemon" where
  "emit e st = st\<lparr>trace := trace st @ [e]\<rparr>"

text \<open>
  The signal flags live in signals.c: \<open>IsPendingTermination\<close> and
  \<open>ReloadConfigRequested\<close> read them, \<open>ClearRequestReloadConfig\<close> resets the second.
  A terminating signal that is handled while the process is inside a call sets the first.
\<close>

definition IsPendingTermination :: "('ctx, 'pol, 'xc) daemon \<Rightarrow> bool" where
  "IsPendingTermination st = termination_pending st"

definition ReloadConfigRequested :: "('ctx, 'pol, 'xc) daemon \<Rightarrow> bool" where
  "ReloadConfigRequested st = reload_requested st"

definition ClearRequestReloadConfig :: "('ctx, 'pol, 'xc) daemon \<Rightarrow> ('ctx, 'pol, 'xc) daemon" where
  "ClearRequestReloadConfig st = st\<lparr>reload_requested := False\<rparr>"

definition deliver_term :: "bool \<Rightarrow> ('ctx, 'pol, 'xc) daemon \<Rightarrow> ('ctx, 'pol, 'xc) daemon" where
  "deliver_term sig st = st\<lparr>termination_pending := (termination_pending st \<or> sig)\<rparr>"

subsection \<open>CheckNewPromises\<close>

text \<open>
  What one call of \<open>ScheduleRun\<close> reads from outside the process: the timestamp
  \<open>ReadTimestampFromPolicyValidatedFile\<close> returns, the verdict of
  \<open>GenericAgentArePromisesValid\<close> (consulted only where the code calls it), and the
  clock value \<open>SetReferenceTime\<close> returns.
\<close>

record tick_env =
  validated_at :: int
  promises_valid :: bool
  reference_time :: int

definition CheckNewPromises ::
  "tick_env \<Rightarrow> ('ctx, 'pol, 'xc) daemon \<Rightarrow> Reload \<times> ('ctx, 'pol, 'xc) daemon" where
  "CheckNewPromises env st0 =
    (let st1 = emit (Log LOG_LEVEL_DEBUG ''Checking file updates for input file'') st0;
         st2 = (if last_validated_at (config st1) < validated_at env
                then emit (Log LOG_LEVEL_VERBOSE ''New promises detected...'') st1
                else st1);
         reload_config1 = (last_validated_at (config st1) < validated_at env);
         st3 = (if ReloadConfigRequested st2
                then emit (Log LOG_LEVEL_VERBOSE ''Force reload of inputs files...'') st2
                else st2);
         reload_config = (reload_config1 \<or> ReloadConfigRequested st2)
     in if reload_config then
          (let st4 = ClearRequestReloadConfig st3;
               st5 = st4\<lparr>config := (config st4)\<lparr>last_validated_at := validated_at env\<rparr>\<rparr>;
               st6 = emit (Call ''GenericAgentArePromisesValid'') st5
           in if promises_valid env then (RELOAD_FULL, st6)
              else (RELOAD_ENVIRONMENT,
                    emit (Log LOG_LEVEL_INFO
                            ''New promises file contains syntax errors -- ignoring'') st6))
        else (RELOAD_ENVIRONMENT, emit (Log LOG_LEVEL_DEBUG ''No new promises found'') st3))"

subsection \<open>Collaborators\<close>

text \<open>
  The functions cf-execd.c calls and does not define, and the constants it takes from
  headers. Each is a parameter: nothing is assumed about it. \<open>sun_path_size\<close> is
  \<open>sizeof(sock_info.sun_path)\<close>, \<open>agent_type_executor\<close> is
  \<open>CF_AGENTTYPES[AGENT_TYPE_EXECUTOR]\<close>. \<open>LoadPolicy\<close> returns the policy (or NULL)
  together with the context as it leaves it.
\<close>

record ('ctx, 'pol, 'xc) externals =
  EvalContextClear :: "'ctx \<Rightarrow> 'ctx"
  DetectEnvironment :: "'ctx \<Rightarrow> 'ctx"
  UpdateTimeClasses :: "'ctx \<Rightarrow> int \<Rightarrow> 'ctx"
  IsDefinedClass :: "'ctx \<Rightarrow> string \<Rightarrow> bool"
  EvalContextSetPolicyServerFromFile :: "'ctx \<Rightarrow> string \<Rightarrow> 'ctx"
  UpdateLastPolicyUpdateTime :: "'ctx \<Rightarrow> 'ctx"
  GenericAgentDiscoverContext :: "'ctx \<Rightarrow> GenericAgentConfig \<Rightarrow> 'ctx"
  EvalContextClassPutHard :: "'ctx \<Rightarrow> string \<Rightarrow> string \<Rightarrow> 'ctx"
  LoadPolicy :: "'ctx \<Rightarrow> GenericAgentConfig \<Rightarrow> 'pol option \<times> 'ctx"
  ExecConfigNew :: "bool \<Rightarrow> 'ctx \<Rightarrow> 'pol option \<Rightarrow> 'xc"
  ExecdConfigNew :: "'ctx \<Rightarrow> 'pol option \<Rightarrow> ExecdConfig"
  AllowAccessForUsers :: "string \<Rightarrow> string list \<Rightarrow> bool \<Rightarrow> bool \<Rightarrow> bool"
  ChopLastNode :: "string \<Rightarrow> string"
  GetWorkDir :: string
  GetStateDir :: string
  sun_path_size :: nat
  agent_type_executor :: string
  CFPULSETIME :: int

subsection \<open>The runagent socket: path and access control\<close>

definition ToLower :: "char \<Rightarrow> char" where
  "ToLower c =
    (if of_char CHR ''A'' \<le> (of_char c :: nat) \<and> (of_char c :: nat) \<le> of_char CHR ''Z''
     then char_of ((of_char c :: nat) + 32) else c)"

definition StringEqual_IgnoreCase :: "string \<Rightarrow> string \<Rightarrow> bool" where
  "StringEqual_IgnoreCase a b = (map ToLower a = map ToLower b)"

text \<open>
  \<open>return ((RUNAGENT_SOCKET_DIR == NULL) ||
  (!StringEqual_IgnoreCase(RUNAGENT_SOCKET_DIR, "no")));\<close>
\<close>

definition UsingRunagentSocket :: "('ctx, 'pol, 'xc) daemon \<Rightarrow> bool" where
  "UsingRunagentSocket st =
    (case RUNAGENT_SOCKET_DIR st of
       None \<Rightarrow> True
     | Some d \<Rightarrow> \<not> StringEqual_IgnoreCase d ''no'')"

text \<open>
  \<open>snprintf(sun_path, sizeof(sun_path) - 1, ...)\<close> returns the length of the whole
  formatted string and stores at most \<open>sizeof(sun_path) - 2\<close> characters of it. The
  function returns \<open>(ret > 0) && (ret <= sizeof(sun_path) - 1)\<close> and leaves the stored
  path in \<open>sock_info\<close>.
\<close>

definition GetRunagentSocketInfo ::
  "('ctx, 'pol, 'xc) externals \<Rightarrow> ('ctx, 'pol, 'xc) daemon \<Rightarrow> bool \<times> string" where
  "GetRunagentSocketInfo ext st =
    (let formatted =
           (case RUNAGENT_SOCKET_DIR st of
              None \<Rightarrow> GetStateDir ext @ ''/cf-execd.sockets/runagent.socket''
            | Some d \<Rightarrow> d @ ''/runagent.socket'');
         ret = int (length formatted);
         sun_path = take (nat (int (sun_path_size ext) - 2)) formatted
     in (ret > 0 \<and> ret \<le> int (sun_path_size ext) - 1, sun_path))"

definition SetRunagentSocketACLs ::
  "('ctx, 'pol, 'xc) externals \<Rightarrow> string \<Rightarrow> string list \<Rightarrow> ('ctx, 'pol, 'xc) daemon
     \<Rightarrow> bool \<times> ('ctx, 'pol, 'xc) daemon" where
  "SetRunagentSocketACLs ext sock_path allow_users st =
    (let success = AllowAccessForUsers ext sock_path allow_users True False;
         st1 = emit (AllowAccessForUsers_call sock_path allow_users True False) st
     in if success then
          (let parent = ChopLastNode ext sock_path
           in (AllowAccessForUsers ext parent allow_users False True,
               emit (AllowAccessForUsers_call parent allow_users False True) st1))
        else (success, st1))"

text \<open>\<open>StringSetIsEqual\<close>: the two sets have the same members.\<close>

definition StringSetIsEqual :: "string list \<Rightarrow> string list \<Rightarrow> bool" where
  "StringSetIsEqual a b = (set a = set b)"

subsection \<open>ScheduleRun\<close>

text \<open>
  The iteration over \<open>(*execd_config)->schedule\<close>: the first member, in iteration order,
  that \<open>IsDefinedClass\<close> accepts, or nothing when the iterator is exhausted.
\<close>

fun schedule_loop :: "('ctx \<Rightarrow> string \<Rightarrow> bool) \<Rightarrow> 'ctx \<Rightarrow> string list \<Rightarrow> string option" where
  "schedule_loop isdef c [] = None"
| "schedule_loop isdef c (time_context # rest) =
     (if isdef c time_context then Some time_context else schedule_loop isdef c rest)"

text \<open>
  The branch \<open>CheckNewPromises(config) == RELOAD_FULL\<close>, in the order of the source
  and in three parts. First, from the log line to \<open>GenericAgentConfigSetBundleSequence\<close>:
  the context is cleared and rediscovered and the policy destroyed.
\<close>

definition reload_context ::
  "('ctx, 'pol, 'xc) externals \<Rightarrow> tick_env \<Rightarrow> ('ctx, 'pol, 'xc) daemon \<Rightarrow> ('ctx, 'pol, 'xc) daemon" where
  "reload_context ext env st0 =
    (let st1 = emit (Log LOG_LEVEL_INFO ''Re-reading promise file'') st0;
         st2 = st1\<lparr>ctx := EvalContextClear ext (ctx st1)\<rparr>;
         st3 = st2\<lparr>VDOMAIN := ''undefined.domain''\<rparr>;
         st4 = (emit (Call ''PolicyDestroy'') st3)\<lparr>policy := None\<rparr>;
         st5 = st4\<lparr>ctx := EvalContextSetPolicyServerFromFile ext (ctx st4) (GetWorkDir ext)\<rparr>;
         st6 = st5\<lparr>ctx := UpdateLastPolicyUpdateTime ext (ctx st5)\<rparr>;
         st7 = st6\<lparr>ctx := DetectEnvironment ext (ctx st6)\<rparr>;
         st8 = st7\<lparr>ctx := GenericAgentDiscoverContext ext (ctx st7) (config st7)\<rparr>;
         st9 = st8\<lparr>ctx := EvalContextClassPutHard ext (ctx st8) (agent_type_executor ext)
                                 ''cfe_internal,source=agent''\<rparr>;
         st10 = st9\<lparr>ctx := UpdateTimeClasses ext (ctx st9) (reference_time env)\<rparr>
     in st10\<lparr>config := (config st10)\<lparr>bundlesequence := None\<rparr>\<rparr>)"

text \<open>
  Second, from \<open>LoadPolicy\<close> to \<open>ExecdConfigNew\<close>: the policy is loaded, the two old
  configuration objects are destroyed and new ones built.
\<close>

definition rebuild_configs ::
  "('ctx, 'pol, 'xc) externals \<Rightarrow> ('ctx, 'pol, 'xc) daemon \<Rightarrow> ('ctx, 'pol, 'xc) daemon" where
  "rebuild_configs ext st0 =
    (let loaded = LoadPolicy ext (ctx st0) (config st0);
         st1 = st0\<lparr>policy := fst loaded, ctx := snd loaded\<rparr>;
         st2 = emit (Call ''ExecdConfigDestroy'') (emit (Call ''ExecConfigDestroy'') st1);
         st3 = st2\<lparr>exec_config := ExecConfigNew ext (\<not> ONCE st2) (ctx st2) (policy st2)\<rparr>
     in st3\<lparr>execd_config := ExecdConfigNew ext (ctx st3) (policy st3)\<rparr>)"

text \<open>
  Third, the second \<open>if (UsingRunagentSocket())\<close> block: the set taken over from the old
  \<open>ExecdConfig\<close> is compared with the new one, and released after the comparison.
\<close>

definition reapply_runagent_acl ::
  "('ctx, 'pol, 'xc) externals \<Rightarrow> string list \<Rightarrow> ('ctx, 'pol, 'xc) daemon \<Rightarrow> ('ctx, 'pol, 'xc) daemon" where
  "reapply_runagent_acl ext old_runagent_allow_users st0 =
    (if UsingRunagentSocket st0 then
       (let st1 =
          (if \<not> StringSetIsEqual old_runagent_allow_users
                   (runagent_allow_users (execd_config st0))
           then
             (let sock_info = GetRunagentSocketInfo ext st0
              in if fst sock_info then
                   (let r = SetRunagentSocketACLs ext (snd sock_info)
                              (runagent_allow_users (execd_config st0)) st0
                    in if \<not> fst r then
                         emit (Log LOG_LEVEL_ERR
                           ''Failed to allow new runagent_socket_allow_users users access the runagent socket (on policy reload)'')
                           (snd r)
                       else snd r)
                 else emit (Log LOG_LEVEL_ERR ''Failed to get runagent.socket path'') st0)
           else st0)
        in emit (Call ''StringSetDestroy'') st1)
     else st0)"

text \<open>
  The whole branch. \<open>old_runagent_allow_users\<close> is read from the \<open>ExecdConfig\<close> in
  force after the first part, before \<open>ExecdConfigDestroy\<close> runs in the second.
\<close>

definition full_reload ::
  "('ctx, 'pol, 'xc) externals \<Rightarrow> tick_env \<Rightarrow> ('ctx, 'pol, 'xc) daemon \<Rightarrow> ('ctx, 'pol, 'xc) daemon" where
  "full_reload ext env st0 =
    (let st1 = reload_context ext env st0;
         old_runagent_allow_users = runagent_allow_users (execd_config st1);
         st2 = rebuild_configs ext st1;
         st3 = reapply_runagent_acl ext old_runagent_allow_users st2
     in emit (SetFacility (log_facility (execd_config st3))) st3)"

text \<open>The other branch: \<open>/* Environment reload */\<close>.\<close>

definition environment_reload ::
  "('ctx, 'pol, 'xc) externals \<Rightarrow> tick_env \<Rightarrow> ('ctx, 'pol, 'xc) daemon \<Rightarrow> ('ctx, 'pol, 'xc) daemon" where
  "environment_reload ext env st0 =
    (let st1 = st0\<lparr>ctx := EvalContextClear ext (ctx st0)\<rparr>;
         st2 = st1\<lparr>ctx := DetectEnvironment ext (ctx st1)\<rparr>
     in st2\<lparr>ctx := UpdateTimeClasses ext (ctx st2) (reference_time env)\<rparr>)"

definition ScheduleRun ::
  "('ctx, 'pol, 'xc) externals \<Rightarrow> tick_env \<Rightarrow> ('ctx, 'pol, 'xc) daemon
     \<Rightarrow> bool \<times> ('ctx, 'pol, 'xc) daemon" where
  "ScheduleRun ext env st0 =
    (let checked = CheckNewPromises env st0;
         st1 = (if fst checked = RELOAD_FULL then full_reload ext env (snd checked)
                else environment_reload ext env (snd checked))
     in case schedule_loop (IsDefinedClass ext) (ctx st1) (schedule (execd_config st1)) of
          Some time_context \<Rightarrow>
            (True, emit (Log LOG_LEVEL_VERBOSE (''Waking up the agent ~ '' @ time_context)) st1)
        | None \<Rightarrow> (False, emit (Log LOG_LEVEL_VERBOSE ''Nothing to do'') st1))"

text \<open>The state \<open>ScheduleRun\<close> consults the schedule in: after whichever reload it did.\<close>

definition reloaded ::
  "('ctx, 'pol, 'xc) externals \<Rightarrow> tick_env \<Rightarrow> ('ctx, 'pol, 'xc) daemon \<Rightarrow> ('ctx, 'pol, 'xc) daemon" where
  "reloaded ext env st =
     (if fst (CheckNewPromises env st) = RELOAD_FULL
      then full_reload ext env (snd (CheckNewPromises env st))
      else environment_reload ext env (snd (CheckNewPromises env st)))"

subsection \<open>HandleRequestsOrSleep\<close>

text \<open>
  A function either returns to its caller or ends the process it runs in (\<open>_exit\<close>,
  \<open>DoCleanupAndExit\<close>). After \<open>fork\<close> the same code runs in two processes; the model
  follows the one whose \<open>fork\<close> result it is given, so the child's path is the run in
  which \<open>fork\<close> returns 0.
\<close>

datatype 'a outcome = Returned 'a | Exited int

definition EXIT_SUCCESS :: int where
  "EXIT_SUCCESS = 0"

definition EXIT_FAILURE :: int where
  "EXIT_FAILURE = 1"

text \<open>
  The four ways \<open>select\<close> comes back, as the code tells them apart:
  \<open>ret == -1 && errno != EINTR\<close>, \<open>ret == 0\<close>, \<open>ret == -1 && errno == EINTR\<close>,
  \<open>ret > 0\<close>.
\<close>

datatype select_result = SelError | SelTimeout | SelEINTR | SelReady

text \<open>
  One pass through the body of the \<open>while (remaining.tv_sec != 0)\<close> loop reads from the
  outside world: how \<open>select\<close> returned and what it left in \<open>remaining\<close> (some
  systems write the unslept time back, others leave the argument alone), whether a
  terminating signal was handled while the process was inside \<open>select\<close>, what
  \<open>accept\<close> and \<open>fork\<close> returned, whether a terminating signal was handled while the
  parent was inside \<open>accept\<close> or \<open>fork\<close>, and the two values of \<open>time(NULL)\<close> on
  the line that recomputes \<open>remaining.tv_sec\<close>: \<open>time_now\<close> for the comparison inside
  \<open>MAX\<close>, \<open>time_again\<close> for the operand \<open>MAX\<close> then yields.
\<close>

record select_event =
  sel_result :: select_result
  sel_left :: timeval
  term_in_select :: bool
  accept_ret :: int
  fork_ret :: int
  term_in_service :: bool
  time_now :: int
  time_again :: int

text \<open>
  \<open>MAX\<close> is a macro, not a function; its text is not in cf-execd.c and is taken in the
  form of the system headers, \<open>#define MAX(a,b) (((a)>(b))?(a):(b))\<close>. The expression
  given for \<open>b\<close> is evaluated for the comparison and, when \<open>b\<close> is the result,
  evaluated again; with a call of \<open>time\<close> in it the two values can differ.
\<close>

definition MAX_macro :: "int \<Rightarrow> int \<Rightarrow> int \<Rightarrow> int" where
  "MAX_macro a b_compared b_yielded = (if a > b_compared then a else b_yielded)"

datatype step = Continue timeval | StepReturn bool | StepExit int

definition select_step ::
  "int \<Rightarrow> string \<Rightarrow> int \<Rightarrow> string option \<Rightarrow> int \<Rightarrow> timeval \<Rightarrow> select_event
     \<Rightarrow> ('ctx, 'pol, 'xc) daemon \<Rightarrow> step \<times> ('ctx, 'pol, 'xc) daemon" where
  "select_step seconds reason runagent_socket run_command sleep_started remaining ev st0 =
    (let st1 = deliver_term (term_in_select ev) (emit (Select (runagent_socket + 1) remaining) st0);
         left = sel_left ev
     in case sel_result ev of
          SelError \<Rightarrow>
            (Continue left,
             emit (Log LOG_LEVEL_ERR (''Failed to sleep using select() for '' @ reason)) st1)
        | SelTimeout \<Rightarrow> (Continue (left\<lparr>tv_sec := 0\<rparr>), st1)
        | r \<Rightarrow>
            if IsPendingTermination st1 then (StepReturn True, st1)
            else if r = SelReady then
              (let data_socket = accept_ret ev;
                   st2 = (emit (Accept runagent_socket data_socket) st1)
                           \<lparr>open_fds := (if data_socket \<ge> 0 then data_socket # open_fds st1
                                         else open_fds st1)\<rparr>;
                   pid = fork_ret ev;
                   st3 = emit (Fork pid) st2
               in if pid = 0 then
                    (StepExit EXIT_SUCCESS,
                     emit (HandleRunagentRequest data_socket run_command)
                       (emit (Signal_call ''SIGPIPE'' ''SIG_DFL'') st3))
                  else
                    (let st4 = (if pid = -1
                                then emit (Log LOG_LEVEL_ERR
                                             ''Failed to fork runagent request handler'') st3
                                else st3);
                         st5 = deliver_term (term_in_service ev) st4
                     in (Continue (left\<lparr>tv_sec := MAX_macro 0 (seconds - (time_now ev - sleep_started))
                                                      (seconds - (time_again ev - sleep_started))\<rparr>),
                         st5)))
            else
              (Continue (left\<lparr>tv_sec := MAX_macro 0 (seconds - (time_now ev - sleep_started))
                                               (seconds - (time_again ev - sleep_started))\<rparr>),
               st1))"

text \<open>
  The loop. It ends when \<open>remaining.tv_sec\<close> is 0 (result \<open>None\<close> in the first
  component: the code goes on below the loop), when the body returns, or when the body
  ends the process. The events not consumed are handed back. A run that needs another
  event and has none is \<open>None\<close>.
\<close>

fun select_loop ::
  "int \<Rightarrow> string \<Rightarrow> int \<Rightarrow> string option \<Rightarrow> int \<Rightarrow> timeval \<Rightarrow> ('ctx, 'pol, 'xc) daemon
     \<Rightarrow> select_event list
     \<Rightarrow> (bool outcome option \<times> ('ctx, 'pol, 'xc) daemon \<times> select_event list) option" where
  "select_loop seconds reason sock cmd started remaining st [] =
     (if tv_sec remaining \<noteq> 0 then None else Some (None, st, []))"
| "select_loop seconds reason sock cmd started remaining st (ev # rest) =
     (if tv_sec remaining \<noteq> 0 then
        (case select_step seconds reason sock cmd started remaining ev st of
           (Continue remaining', st') \<Rightarrow>
             select_loop seconds reason sock cmd started remaining' st' rest
         | (StepReturn b, st') \<Rightarrow> Some (Some (Returned b), st', rest)
         | (StepExit c, st') \<Rightarrow> Some (Some (Exited c), st', rest))
      else Some (None, st, ev # rest))"

text \<open>
  What one call of \<open>HandleRequestsOrSleep\<close> reads from the outside world: \<open>time(NULL)\<close>
  when the sleep starts, the events of the \<open>select\<close> loop, and, for the plain
  \<open>sleep\<close>, whether a terminating signal was handled during it.
\<close>

record wait_env =
  time_at_start :: int
  select_events :: "select_event list"
  term_in_sleep :: bool

definition HandleRequestsOrSleep ::
  "int \<Rightarrow> string \<Rightarrow> int \<Rightarrow> string option \<Rightarrow> wait_env \<Rightarrow> ('ctx, 'pol, 'xc) daemon
     \<Rightarrow> (bool outcome \<times> ('ctx, 'pol, 'xc) daemon \<times> select_event list) option" where
  "HandleRequestsOrSleep seconds reason runagent_socket run_command env st0 =
    (if IsPendingTermination st0 then Some (Returned True, st0, select_events env)
     else
       (let st1 = emit (Log LOG_LEVEL_VERBOSE (''Sleeping for '' @ reason)) st0
        in if runagent_socket \<ge> 0 then
             (case select_loop seconds reason runagent_socket run_command
                     (time_at_start env) \<lparr>tv_sec = seconds, tv_usec = 0\<rparr> st1 (select_events env) of
                None \<Rightarrow> None
              | Some (Some oc, st2, rest) \<Rightarrow> Some (oc, st2, rest)
              | Some (None, st2, rest) \<Rightarrow>
                  Some (Returned (IsPendingTermination st2), st2, rest))
           else
             (let st2 = deliver_term (term_in_sleep env) (emit (Sleep_call seconds) st1)
              in Some (Returned (IsPendingTermination st2), st2, select_events env))))"

subsection \<open>LocalExecInFork and one pass of the main loop\<close>

text \<open>\<open>LocalExecInFork\<close>, given what \<open>fork\<close> returns.\<close>

definition LocalExecInFork ::
  "int \<Rightarrow> ('ctx, 'pol, 'xc) daemon \<Rightarrow> int outcome \<times> ('ctx, 'pol, 'xc) daemon" where
  "LocalExecInFork pid st0 =
    (let st1 = emit (Fork pid) (emit (Log LOG_LEVEL_VERBOSE ''Forking for exec_command execution'') st0)
     in if pid = -1 then
          (Returned (-1),
           emit (Log LOG_LEVEL_ERR ''Failed to fork for exec_command execution'') st1)
        else if pid = 0 then
          (Exited 0,
           emit (Log LOG_LEVEL_VERBOSE
                   ''Finished exec_command execution, terminating the forked process'')
             (emit (LocalExec (exec_config st1)) st1))
        else (Returned pid, st1))"

text \<open>
  The \<open>waitpid(-1, NULL, WNOHANG) > 0\<close> loop, given how many exited children there are
  to reap: one call and one debug line for each, and the call that finds no more.
\<close>

fun reap_children :: "nat \<Rightarrow> ('ctx, 'pol, 'xc) daemon \<Rightarrow> ('ctx, 'pol, 'xc) daemon" where
  "reap_children 0 st = emit (Call ''waitpid'') st"
| "reap_children (Suc n) st =
     reap_children n (emit (Log LOG_LEVEL_DEBUG ''Reaped child process'') (emit (Call ''waitpid'') st))"

record loop_env =
  exited_children :: nat
  tick :: tick_env
  splay_wait :: wait_env
  exec_fork_ret :: int
  pulse_wait :: wait_env

text \<open>
  The body of \<open>while (!IsPendingTermination())\<close> in \<open>CFExecdMainLoop\<close> (the variant
  that forks). The result \<open>Returned True\<close> is a \<open>break\<close>, \<open>Returned False\<close> goes back to
  the loop test.
\<close>

definition CFExecdMainLoop_body ::
  "('ctx, 'pol, 'xc) externals \<Rightarrow> int \<Rightarrow> loop_env \<Rightarrow> ('ctx, 'pol, 'xc) daemon
     \<Rightarrow> (bool outcome \<times> ('ctx, 'pol, 'xc) daemon) option" where
  "CFExecdMainLoop_body ext runagent_socket env st0 =
    (let st1 = reap_children (exited_children env) st0;
         sched = ScheduleRun ext (tick env) st1;
         st2 = snd sched;
         pulse = (\<lambda>st. case HandleRequestsOrSleep (CFPULSETIME ext) ''pulse time'' runagent_socket
                               (local_run_command (execd_config st)) (pulse_wait env) st of
                          None \<Rightarrow> None
                        | Some (oc, st', _) \<Rightarrow> Some (oc, st'))
     in if fst sched then
          (case HandleRequestsOrSleep (splay_time (execd_config st2)) ''splay time'' runagent_socket
                  (local_run_command (execd_config st2)) (splay_wait env) st2 of
             None \<Rightarrow> None
           | Some (Exited c, st3, _) \<Rightarrow> Some (Exited c, st3)
           | Some (Returned True, st3, _) \<Rightarrow> Some (Returned True, st3)
           | Some (Returned False, st3, _) \<Rightarrow>
               (case LocalExecInFork (exec_fork_ret env) st3 of
                  (Exited c, st4) \<Rightarrow> Some (Exited c, st4)
                | (Returned child_pid, st4) \<Rightarrow>
                    if child_pid < 0 then
                      pulse (emit (LocalExec (exec_config st4))
                               (emit (Log LOG_LEVEL_INFO
                                  ''Unable to run agent in a fork, falling back to blocking execution'')
                                  st4))
                    else pulse st4))
        else pulse st2)"

subsection \<open>CheckOpts and the start of StartServer\<close>

text \<open>
  What \<open>getopt_long\<close> hands to the \<open>switch\<close>: the option character with its argument,
  or 0 together with the name of the long-only option.
\<close>

datatype getopt_result = Short char "string option" | Long string "string option"

text \<open>
  The variables \<open>CheckOpts\<close> writes: the file's statics, the fields of the
  \<open>GenericAgentConfig\<close> it builds, and the settings it passes to the library
  (log level, evaluation mode, environment of the children, timestamps, colour).
\<close>

record cli =
  PERFORM_DB_CHECK :: bool
  NO_FORK :: bool
  cli_ONCE :: bool
  WINSERVICE :: bool
  cli_RUNAGENT_SOCKET_DIR :: "string option"
  MINUSF :: bool
  cli_input_file :: "string option"
  cli_ignore_locks :: bool
  heap_soft :: "string list option"
  heap_negated :: "string list option"
  ignore_preferred_augments :: bool
  global_log_level :: "LogLevel option"
  dry_run :: bool
  LD_LIBRARY_PATH :: "string option"
  timestamps :: bool
  color :: "bool option"
  cli_log :: "(LogLevel \<times> string) list"

definition cli_initial :: cli where
  "cli_initial =
    \<lparr>PERFORM_DB_CHECK = False, NO_FORK = False, cli_ONCE = False, WINSERVICE = True,
     cli_RUNAGENT_SOCKET_DIR = None, MINUSF = False, cli_input_file = None,
     cli_ignore_locks = False, heap_soft = None, heap_negated = None,
     ignore_preferred_augments = False, global_log_level = None, dry_run = False,
     LD_LIBRARY_PATH = None, timestamps = False, color = None, cli_log = []\<rparr>"

text \<open>
  The library functions \<open>CheckOpts\<close> calls: \<open>StringSetFromString(optarg, ',')\<close>, the
  parser behind \<open>LogSetGlobalLevelArgOrExit\<close> (no level: the process exits),
  \<open>GenericAgentConfigParseColor\<close> (no value: it returned false) and
  \<open>GenericAgentConfigParseArguments\<close>.
\<close>

record cli_externals =
  StringSetFromString :: "string \<Rightarrow> string list"
  LogLevelFromString :: "string option \<Rightarrow> LogLevel option"
  ParseColor :: "string option \<Rightarrow> bool option"
  ParseArguments :: "string list \<Rightarrow> bool"

definition StringSetJoin :: "string list \<Rightarrow> string list \<Rightarrow> string list" where
  "StringSetJoin a b = a @ filter (\<lambda>x. x \<notin> set a) b"

text \<open>One pass through the \<open>switch (c)\<close>.\<close>

definition CheckOpts_switch :: "cli_externals \<Rightarrow> getopt_result \<Rightarrow> cli \<Rightarrow> cli outcome" where
  "CheckOpts_switch ext opt c =
    (case opt of
       Short ch optarg \<Rightarrow>
         if ch = CHR ''f'' then Returned (c\<lparr>cli_input_file := optarg, MINUSF := True\<rparr>)
         else if ch = CHR ''d'' then Returned (c\<lparr>global_log_level := Some LOG_LEVEL_DEBUG\<rparr>)
         else if ch = CHR ''K'' then Returned (c\<lparr>cli_ignore_locks := True\<rparr>)
         else if ch = CHR ''D'' then
           (let defined_classes = StringSetFromString ext (case optarg of None \<Rightarrow> [] | Some a \<Rightarrow> a)
            in Returned (c\<lparr>heap_soft :=
                 (case heap_soft c of
                    None \<Rightarrow> Some defined_classes
                  | Some old \<Rightarrow> Some (StringSetJoin old defined_classes))\<rparr>))
         else if ch = CHR ''N'' then
           (let negated_classes = StringSetFromString ext (case optarg of None \<Rightarrow> [] | Some a \<Rightarrow> a)
            in Returned (c\<lparr>heap_negated :=
                 (case heap_negated c of
                    None \<Rightarrow> Some negated_classes
                  | Some old \<Rightarrow> Some (StringSetJoin old negated_classes))\<rparr>))
         else if ch = CHR ''I'' then Returned (c\<lparr>global_log_level := Some LOG_LEVEL_INFO\<rparr>)
         else if ch = CHR ''v'' then
           Returned (c\<lparr>global_log_level := Some LOG_LEVEL_VERBOSE, NO_FORK := True\<rparr>)
         else if ch = CHR ''g'' then
           (case LogLevelFromString ext optarg of
              None \<Rightarrow> Exited EXIT_FAILURE
            | Some l \<Rightarrow> Returned (c\<lparr>global_log_level := Some l\<rparr>))
         else if ch = CHR ''n'' then Returned (c\<lparr>dry_run := True, cli_ignore_locks := True\<rparr>)
         else if ch = CHR ''L'' then
           Returned (c\<lparr>LD_LIBRARY_PATH := optarg,
                       cli_log := cli_log c @ [(LOG_LEVEL_VERBOSE, ''Setting LD_LIBRARY_PATH'')]\<rparr>)
         else if ch = CHR ''W'' then Returned (c\<lparr>WINSERVICE := False\<rparr>)
         else if ch = CHR ''F'' then Returned (c\<lparr>NO_FORK := True\<rparr>)
         else if ch = CHR ''O'' then Returned (c\<lparr>cli_ONCE := True, NO_FORK := True\<rparr>)
         else if ch = CHR ''V'' then Exited EXIT_SUCCESS
         else if ch = CHR ''h'' then Exited EXIT_SUCCESS
         else if ch = CHR ''M'' then Exited EXIT_SUCCESS
         else if ch = CHR ''x'' then Exited EXIT_SUCCESS
         else if ch = CHR ''C'' then
           (case ParseColor ext optarg of
              None \<Rightarrow> Exited EXIT_FAILURE
            | Some b \<Rightarrow> Returned (c\<lparr>color := Some b\<rparr>))
         else if ch = CHR ''l'' then Returned (c\<lparr>timestamps := True\<rparr>)
         else Exited EXIT_FAILURE
     | Long option_name optarg \<Rightarrow>
         if option_name = ''ignore-preferred-augments'' then
           Returned (c\<lparr>ignore_preferred_augments := True\<rparr>)
         else if option_name = ''skip-db-check'' then
           (case optarg of
              None \<Rightarrow> Returned (c\<lparr>PERFORM_DB_CHECK := False\<rparr>)
            | Some a \<Rightarrow>
                if StringEqual_IgnoreCase a ''yes'' then Returned (c\<lparr>PERFORM_DB_CHECK := False\<rparr>)
                else if StringEqual_IgnoreCase a ''no'' then Returned (c\<lparr>PERFORM_DB_CHECK := True\<rparr>)
                else Exited EXIT_FAILURE)
         else if option_name = ''with-runagent-socket'' then
           Returned (c\<lparr>cli_RUNAGENT_SOCKET_DIR := optarg\<rparr>)
         else Returned c)"

text \<open>The \<open>while ((c = getopt_long(...)) != -1)\<close> loop over the options of the command line.\<close>

fun CheckOpts_loop :: "cli_externals \<Rightarrow> getopt_result list \<Rightarrow> cli \<Rightarrow> cli outcome" where
  "CheckOpts_loop ext [] c = Returned c"
| "CheckOpts_loop ext (opt # opts) c =
     (case CheckOpts_switch ext opt c of
        Exited code \<Rightarrow> Exited code
      | Returned c' \<Rightarrow> CheckOpts_loop ext opts c')"

definition CheckOpts :: "cli_externals \<Rightarrow> getopt_result list \<Rightarrow> string list \<Rightarrow> cli outcome" where
  "CheckOpts ext opts args =
    (case CheckOpts_loop ext opts cli_initial of
       Exited code \<Rightarrow> Exited code
     | Returned c \<Rightarrow>
         if \<not> ParseArguments ext args then Exited EXIT_FAILURE else Returned c)"

text \<open>
  \<open>StartServer\<close> from \<open>Apoptosis\<close> to \<open>ActAsDaemon\<close>, given what \<open>fork\<close> returns if it
  is called: the effects, and whether this process goes on (\<open>Returned\<close>) or leaves.
\<close>

definition StartServer_detach :: "cli \<Rightarrow> int \<Rightarrow> 'xc effect list \<times> unit outcome" where
  "StartServer_detach c fork_result =
    (let apoptosis = (if \<not> cli_ONCE c then [Call ''Apoptosis''] else [])
     in if \<not> NO_FORK c then
          (if fork_result \<noteq> 0 then
             (apoptosis @ [Fork fork_result, Log LOG_LEVEL_INFO ''cf-execd starting''],
              Exited EXIT_SUCCESS)
           else (apoptosis @ [Fork fork_result, Call ''ActAsDaemon''], Returned ()))
        else (apoptosis, Returned ()))"

subsection \<open>Reading traces\<close>

text \<open>The effects a call added to the trace it was given.\<close>

definition effects_since ::
  "('ctx, 'pol, 'xc) daemon \<Rightarrow> ('ctx, 'pol, 'xc) daemon \<Rightarrow> 'xc effect list" where
  "effects_since st st' = drop (length (trace st)) (trace st')"

fun is_acl_call :: "'xc effect \<Rightarrow> bool" where
  "is_acl_call (AllowAccessForUsers_call p us rw rx) = True"
| "is_acl_call _ = False"

fun is_log :: "'xc effect \<Rightarrow> bool" where
  "is_log (Log l m) = True"
| "is_log _ = False"

subsection \<open>A concrete daemon\<close>

text \<open>
  An instance of the collaborators and of the state, used to run the definitions: the
  context is the list of its classes, a policy and an \<open>ExecConfig\<close> are names. The
  policy on disk schedules \<open>Min00_05\<close> only and allows \<open>alice\<close> only; the running
  configuration schedules two buckets and allows \<open>alice\<close> and \<open>bob\<close>.
\<close>

definition demo_ext :: "(string list, string, string) externals" where
  "demo_ext =
    \<lparr>EvalContextClear = (\<lambda>c. []),
     DetectEnvironment = (\<lambda>c. ''linux'' # c),
     UpdateTimeClasses = (\<lambda>c t. (if t mod 3600 < 300 then ''Min00_05'' else ''Min17_22'') # c),
     IsDefinedClass = (\<lambda>c x. x \<in> set c),
     EvalContextSetPolicyServerFromFile = (\<lambda>c d. c),
     UpdateLastPolicyUpdateTime = (\<lambda>c. c),
     GenericAgentDiscoverContext = (\<lambda>c g. ''cfengine'' # c),
     EvalContextClassPutHard = (\<lambda>c x tags. x # c),
     LoadPolicy = (\<lambda>c g. (Some ''policy-on-disk'', c)),
     ExecConfigNew = (\<lambda>b c p. ''exec-config-2''),
     ExecdConfigNew = (\<lambda>c p. \<lparr>schedule = [''Min00_05''], splay_time = 30,
                                local_run_command = None, runagent_allow_users = [''alice''],
                                log_facility = ''LOG_USER''\<rparr>),
     AllowAccessForUsers = (\<lambda>p us rw rx. True),
     ChopLastNode = (\<lambda>p. rev (drop 1 (dropWhile (\<lambda>ch. ch \<noteq> CHR ''/'') (rev p)))),
     GetWorkDir = ''/var/cfengine'',
     GetStateDir = ''/var/cfengine/state'',
     sun_path_size = 108,
     agent_type_executor = ''executor'',
     CFPULSETIME = 60\<rparr>"

definition demo_state :: "(string list, string, string) daemon" where
  "demo_state =
    \<lparr>ctx = [],
     policy = Some ''policy-1'',
     config = \<lparr>input_file = ''promises.cf'', ignore_locks = False, bundlesequence = None,
               last_validated_at = 100\<rparr>,
     execd_config = \<lparr>schedule = [''Min00_05'', ''Min30_35''], splay_time = 30,
                     local_run_command = None, runagent_allow_users = [''alice'', ''bob''],
                     log_facility = ''LOG_USER''\<rparr>,
     exec_config = ''exec-config-1'',
     reload_requested = False,
     termination_pending = False,
     VDOMAIN = ''example.org'',
     RUNAGENT_SOCKET_DIR = None,
     ONCE = False,
     open_fds = [3],
     trace = []\<rparr>"

text \<open>Ticks: nothing new on disk; a new policy that validates; a new policy that does not.\<close>

definition tick_quiet :: tick_env where
  "tick_quiet = \<lparr>validated_at = 100, promises_valid = True, reference_time = 7200\<rparr>"

definition tick_new_valid :: tick_env where
  "tick_new_valid = \<lparr>validated_at = 200, promises_valid = True, reference_time = 7200\<rparr>"

definition tick_new_broken :: tick_env where
  "tick_new_broken = \<lparr>validated_at = 200, promises_valid = False, reference_time = 7200\<rparr>"

text \<open>The same daemon with nothing in its schedule.\<close>

definition demo_state_no_schedule :: "(string list, string, string) daemon" where
  "demo_state_no_schedule =
     demo_state\<lparr>execd_config := (execd_config demo_state)\<lparr>schedule := []\<rparr>\<rparr>"

text \<open>
  Events of a wait that started at time 1000 for 30 seconds on the listening socket 3:
  a client connects three seconds in (\<open>accept\<close> returns descriptor 7, \<open>fork\<close> returns
  the child's pid 1234 in the parent and 0 in the child); the same with \<open>SIGTERM\<close> handled
  while the parent is inside \<open>fork\<close>; and the timeout of the wait.
\<close>

definition ev_request :: select_event where
  "ev_request =
    \<lparr>sel_result = SelReady, sel_left = \<lparr>tv_sec = 27, tv_usec = 0\<rparr>, term_in_select = False,
     accept_ret = 7, fork_ret = 1234, term_in_service = False, time_now = 1003,
     time_again = 1003\<rparr>"

definition ev_request_child :: select_event where
  "ev_request_child = ev_request\<lparr>fork_ret := 0\<rparr>"


definition ev_timeout :: select_event where
  "ev_timeout =
    \<lparr>sel_result = SelTimeout, sel_left = \<lparr>tv_sec = 0, tv_usec = 0\<rparr>, term_in_select = False,
     accept_ret = - 1, fork_ret = - 1, term_in_service = False, time_now = 1030,
     time_again = 1030\<rparr>"


definition demo_wait :: "select_event list \<Rightarrow> wait_env" where
  "demo_wait evs = \<lparr>time_at_start = 1000, select_events = evs, term_in_sleep = False\<rparr>"

text \<open>
  Two more events of such a wait. A client connects in the last second before the
  deadline, when \<open>time(NULL)\<close> is 1030, and the clock moves on to 1031 between the two
  evaluations inside \<open>MAX\<close>; \<open>select\<close> had written back the 400000 microseconds it
  had not slept. And a \<open>select\<close> that is given a negative timeout: it fails with
  \<open>EINVAL\<close> and leaves its argument as it was.
\<close>

definition ev_late_request :: select_event where
  "ev_late_request =
    \<lparr>sel_result = SelReady, sel_left = \<lparr>tv_sec = 0, tv_usec = 400000\<rparr>,
     term_in_select = False, accept_ret = 8, fork_ret = 1235, term_in_service = False,
     time_now = 1030, time_again = 1031\<rparr>"

definition ev_einval :: select_event where
  "ev_einval =
    \<lparr>sel_result = SelError, sel_left = \<lparr>tv_sec = - 1, tv_usec = 400000\<rparr>,
     term_in_select = False, accept_ret = - 1, fork_ret = - 1, term_in_service = False,
     time_now = 1031, time_again = 1031\<rparr>"

text \<open>
  An event of a wait of 2 seconds that started at time 1000: a client connects after
  1.000185 seconds, so \<open>select\<close> writes back the 999815 microseconds it had not slept,
  and \<open>time(NULL)\<close> is 1001.
\<close>

definition ev_request_after_one_second :: select_event where
  "ev_request_after_one_second =
    \<lparr>sel_result = SelReady, sel_left = \<lparr>tv_sec = 0, tv_usec = 999815\<rparr>,
     term_in_select = False, accept_ret = 7, fork_ret = 1234, term_in_service = False,
     time_now = 1001, time_again = 1001\<rparr>"

text \<open>
  A pass of the main loop: one child to reap, nothing new on disk, a request during the
  splay sleep, \<open>fork\<close> failing when the agent is to be launched, and an undisturbed
  pulse sleep. \<open>demo_after_splay\<close> is the state in which the splay sleep of that pass
  returns.
\<close>

definition demo_pass :: loop_env where
  "demo_pass =
    \<lparr>exited_children = 1, tick = tick_quiet, splay_wait = demo_wait [ev_request, ev_timeout],
     exec_fork_ret = - 1, pulse_wait = demo_wait [ev_timeout]\<rparr>"

definition demo_after_splay :: "(string list, string, string) daemon" where
  "demo_after_splay =
    demo_state\<lparr>ctx := [''Min00_05'', ''linux''], open_fds := [7, 3],
      trace := [Call ''waitpid'', Log LOG_LEVEL_DEBUG ''Reaped child process'', Call ''waitpid'',
                Log LOG_LEVEL_DEBUG ''Checking file updates for input file'',
                Log LOG_LEVEL_DEBUG ''No new promises found'',
                Log LOG_LEVEL_VERBOSE ''Waking up the agent ~ Min00_05'',
                Log LOG_LEVEL_VERBOSE ''Sleeping for splay time'',
                Select 4 \<lparr>tv_sec = 30, tv_usec = 0\<rparr>, Accept 3 7, Fork 1234,
                Select 4 \<lparr>tv_sec = 27, tv_usec = 0\<rparr>]\<rparr>"

text \<open>An instance of the library functions behind \<open>CheckOpts\<close>.\<close>

definition demo_cli_ext :: cli_externals where
  "demo_cli_ext =
    \<lparr>StringSetFromString = (\<lambda>s. [s]),
     LogLevelFromString = (\<lambda>a. if a = Some ''verbose'' then Some LOG_LEVEL_VERBOSE
                                 else if a = Some ''info'' then Some LOG_LEVEL_INFO else None),
     ParseColor = (\<lambda>a. Some True),
     ParseArguments = (\<lambda>args. length args \<le> 1)\<rparr>"

section \<open>Properties\<close>

subsection \<open>Auxiliary facts\<close>

lemma schedule_loop_None:
  "(schedule_loop isdef c xs = None) = (\<not> (\<exists>x\<in>set xs. isdef c x))"
  by (induction xs) auto

lemma emit_fields [simp]:
  "ctx (emit e st) = ctx st" "execd_config (emit e st) = execd_config st"
  "policy (emit e st) = policy st" "exec_config (emit e st) = exec_config st"
  "config (emit e st) = config st" "reload_requested (emit e st) = reload_requested st"
  "termination_pending (emit e st) = termination_pending st" "VDOMAIN (emit e st) = VDOMAIN st"
  "RUNAGENT_SOCKET_DIR (emit e st) = RUNAGENT_SOCKET_DIR st" "ONCE (emit e st) = ONCE st"
  "open_fds (emit e st) = open_fds st" "trace (emit e st) = trace st @ [e]"
  by (simp_all add: emit_def)

lemma ScheduleRun_unfold:
  "ScheduleRun ext env st =
     (case schedule_loop (IsDefinedClass ext) (ctx (reloaded ext env st))
             (schedule (execd_config (reloaded ext env st))) of
          Some time_context \<Rightarrow>
            (True, emit (Log LOG_LEVEL_VERBOSE (''Waking up the agent ~ '' @ time_context))
               (reloaded ext env st))
        | None \<Rightarrow> (False, emit (Log LOG_LEVEL_VERBOSE ''Nothing to do'') (reloaded ext env st)))"
  unfolding ScheduleRun_def Let_def reloaded_def by (rule refl)

lemma ScheduleRun_snd:
  "\<exists>m. snd (ScheduleRun ext env st) = emit (Log LOG_LEVEL_VERBOSE m) (reloaded ext env st)"
  unfolding ScheduleRun_unfold
  by (cases "schedule_loop (IsDefinedClass ext) (ctx (reloaded ext env st))
             (schedule (execd_config (reloaded ext env st)))") auto

text \<open>\<open>CheckNewPromises\<close> in closed form: its verdict and the three fields it touches.\<close>

lemma CheckNewPromises_eq:
  "CheckNewPromises e s =
    (if (last_validated_at (config s) < validated_at e \<or> reload_requested s) \<and> promises_valid e
     then RELOAD_FULL else RELOAD_ENVIRONMENT,
     s\<lparr>config := (config s)\<lparr>last_validated_at :=
          (if last_validated_at (config s) < validated_at e \<or> reload_requested s
           then validated_at e else last_validated_at (config s))\<rparr>,
       reload_requested :=
          (reload_requested s \<and> \<not> (last_validated_at (config s) < validated_at e \<or> reload_requested s)),
       trace := trace s @ [Log LOG_LEVEL_DEBUG ''Checking file updates for input file'']
         @ (if last_validated_at (config s) < validated_at e
            then [Log LOG_LEVEL_VERBOSE ''New promises detected...''] else [])
         @ (if reload_requested s
            then [Log LOG_LEVEL_VERBOSE ''Force reload of inputs files...''] else [])
         @ (if last_validated_at (config s) < validated_at e \<or> reload_requested s
            then Call ''GenericAgentArePromisesValid''
                 # (if promises_valid e then []
                    else [Log LOG_LEVEL_INFO ''New promises file contains syntax errors -- ignoring''])
            else [Log LOG_LEVEL_DEBUG ''No new promises found''])\<rparr>)"
  by (cases "last_validated_at (config s) < validated_at e"; cases "reload_requested s";
      cases "promises_valid e";
      simp add: CheckNewPromises_def ClearRequestReloadConfig_def ReloadConfigRequested_def
        emit_def)

lemma CheckNewPromises_fst:
  "(fst (CheckNewPromises env st) = RELOAD_FULL) =
     ((last_validated_at (config st) < validated_at env \<or> reload_requested st) \<and> promises_valid env)"
  by (simp add: CheckNewPromises_eq)

lemma CheckNewPromises_frame:
  "ctx (snd (CheckNewPromises env st)) = ctx st"
  "policy (snd (CheckNewPromises env st)) = policy st"
  "execd_config (snd (CheckNewPromises env st)) = execd_config st"
  "exec_config (snd (CheckNewPromises env st)) = exec_config st"
  "VDOMAIN (snd (CheckNewPromises env st)) = VDOMAIN st"
  "RUNAGENT_SOCKET_DIR (snd (CheckNewPromises env st)) = RUNAGENT_SOCKET_DIR st"
  "ONCE (snd (CheckNewPromises env st)) = ONCE st"
  "termination_pending (snd (CheckNewPromises env st)) = termination_pending st"
  by (simp_all add: CheckNewPromises_eq)

lemma CheckNewPromises_trace:
  "trace (snd (CheckNewPromises e s)) =
     trace s @ [Log LOG_LEVEL_DEBUG ''Checking file updates for input file'']
     @ (if last_validated_at (config s) < validated_at e
        then [Log LOG_LEVEL_VERBOSE ''New promises detected...''] else [])
     @ (if reload_requested s
        then [Log LOG_LEVEL_VERBOSE ''Force reload of inputs files...''] else [])
     @ (if last_validated_at (config s) < validated_at e \<or> reload_requested s
        then Call ''GenericAgentArePromisesValid''
             # (if promises_valid e then []
                else [Log LOG_LEVEL_INFO ''New promises file contains syntax errors -- ignoring''])
        else [Log LOG_LEVEL_DEBUG ''No new promises found''])"
  by (simp add: CheckNewPromises_eq)

lemma CheckNewPromises_flags:
  "reload_requested (snd (CheckNewPromises e s)) =
     (reload_requested s \<and> \<not> (last_validated_at (config s) < validated_at e \<or> reload_requested s))"
  "last_validated_at (config (snd (CheckNewPromises e s))) =
     (if last_validated_at (config s) < validated_at e \<or> reload_requested s
      then validated_at e else last_validated_at (config s))"
  by (simp_all add: CheckNewPromises_eq)

lemma CheckNewPromises_validation_called:
  "(Call ''GenericAgentArePromisesValid'' \<in> set (effects_since s (snd (CheckNewPromises e s))))
     = (last_validated_at (config s) < validated_at e \<or> reload_requested s)"
  by (simp add: effects_since_def CheckNewPromises_trace)

lemma environment_reload_trace: "trace (environment_reload ext env s) = trace s"
  by (simp add: environment_reload_def Let_def)

text \<open>What each part of the full reload leaves alone, and what it adds to the trace.\<close>

lemma reload_context_frame:
  "execd_config (reload_context ext env s) = execd_config s"
  "exec_config (reload_context ext env s) = exec_config s"
  "RUNAGENT_SOCKET_DIR (reload_context ext env s) = RUNAGENT_SOCKET_DIR s"
  "ONCE (reload_context ext env s) = ONCE s"
  "trace (reload_context ext env s) =
     trace s @ [Log LOG_LEVEL_INFO ''Re-reading promise file'', Call ''PolicyDestroy'']"
  by (simp_all add: reload_context_def Let_def emit_def)

lemma rebuild_configs_frame:
  "RUNAGENT_SOCKET_DIR (rebuild_configs ext s) = RUNAGENT_SOCKET_DIR s"
  "trace (rebuild_configs ext s) =
     trace s @ [Call ''ExecConfigDestroy'', Call ''ExecdConfigDestroy'']"
  by (simp_all add: rebuild_configs_def Let_def emit_def)

lemma SetRunagentSocketACLs_frame:
  "execd_config (snd (SetRunagentSocketACLs ext p us s)) = execd_config s"
  "trace (snd (SetRunagentSocketACLs ext p us s)) =
     trace s @ AllowAccessForUsers_call p us True False
       # (if AllowAccessForUsers ext p us True False
          then [AllowAccessForUsers_call (ChopLastNode ext p) us False True] else [])"
  "fst (SetRunagentSocketACLs ext p us s) =
     (AllowAccessForUsers ext p us True False
      \<and> AllowAccessForUsers ext (ChopLastNode ext p) us False True)"
  by (simp_all add: SetRunagentSocketACLs_def Let_def emit_def)

lemma reapply_runagent_acl_frame:
  "execd_config (reapply_runagent_acl ext old s) = execd_config s"
  by (simp add: reapply_runagent_acl_def Let_def SetRunagentSocketACLs_frame)

lemma reapply_runagent_acl_trace:
  "trace (reapply_runagent_acl ext old s) =
     trace s @
     (if UsingRunagentSocket s then
        (if set old \<noteq> set (runagent_allow_users (execd_config s)) then
           (if fst (GetRunagentSocketInfo ext s) then
              AllowAccessForUsers_call (snd (GetRunagentSocketInfo ext s))
                  (runagent_allow_users (execd_config s)) True False
              # (if AllowAccessForUsers ext (snd (GetRunagentSocketInfo ext s))
                       (runagent_allow_users (execd_config s)) True False
                 then [AllowAccessForUsers_call
                         (ChopLastNode ext (snd (GetRunagentSocketInfo ext s)))
                         (runagent_allow_users (execd_config s)) False True]
                 else [])
              @ (if fst (SetRunagentSocketACLs ext (snd (GetRunagentSocketInfo ext s))
                          (runagent_allow_users (execd_config s)) s)
                 then []
                 else [Log LOG_LEVEL_ERR
                   ''Failed to allow new runagent_socket_allow_users users access the runagent socket (on policy reload)''])
            else [Log LOG_LEVEL_ERR ''Failed to get runagent.socket path''])
         else [])
        @ [Call ''StringSetDestroy'']
      else [])"
  by (simp add: reapply_runagent_acl_def Let_def SetRunagentSocketACLs_frame
      StringSetIsEqual_def)

lemma UsingRunagentSocket_cong:
  "RUNAGENT_SOCKET_DIR s = RUNAGENT_SOCKET_DIR s' \<Longrightarrow> UsingRunagentSocket s = UsingRunagentSocket s'"
  by (simp add: UsingRunagentSocket_def)

lemma GetRunagentSocketInfo_cong:
  "RUNAGENT_SOCKET_DIR s = RUNAGENT_SOCKET_DIR s' \<Longrightarrow>
     GetRunagentSocketInfo ext s = GetRunagentSocketInfo ext s'"
  by (simp add: GetRunagentSocketInfo_def)

lemma full_reload_execd_config:
  "execd_config (full_reload ext env s) = execd_config (rebuild_configs ext (reload_context ext env s))"
  by (simp add: full_reload_def Let_def reapply_runagent_acl_frame)

lemma full_reload_trace:
  "trace (full_reload ext env s) =
     trace s @
     [Log LOG_LEVEL_INFO ''Re-reading promise file'', Call ''PolicyDestroy'',
      Call ''ExecConfigDestroy'', Call ''ExecdConfigDestroy'']
     @ (if UsingRunagentSocket s then
        (if set (runagent_allow_users (execd_config s))
              \<noteq> set (runagent_allow_users (execd_config (full_reload ext env s))) then
           (if fst (GetRunagentSocketInfo ext s) then
              AllowAccessForUsers_call (snd (GetRunagentSocketInfo ext s))
                  (runagent_allow_users (execd_config (full_reload ext env s))) True False
              # (if AllowAccessForUsers ext (snd (GetRunagentSocketInfo ext s))
                       (runagent_allow_users (execd_config (full_reload ext env s))) True False
                 then [AllowAccessForUsers_call
                         (ChopLastNode ext (snd (GetRunagentSocketInfo ext s)))
                         (runagent_allow_users (execd_config (full_reload ext env s))) False True]
                 else [])
              @ (if AllowAccessForUsers ext (snd (GetRunagentSocketInfo ext s))
                       (runagent_allow_users (execd_config (full_reload ext env s))) True False
                    \<and> AllowAccessForUsers ext (ChopLastNode ext (snd (GetRunagentSocketInfo ext s)))
                       (runagent_allow_users (execd_config (full_reload ext env s))) False True
                 then []
                 else [Log LOG_LEVEL_ERR
                   ''Failed to allow new runagent_socket_allow_users users access the runagent socket (on policy reload)''])
            else [Log LOG_LEVEL_ERR ''Failed to get runagent.socket path''])
         else [])
        @ [Call ''StringSetDestroy'']
      else [])
     @ [SetFacility (log_facility (execd_config (full_reload ext env s)))]"
proof -
  let ?s2 = "rebuild_configs ext (reload_context ext env s)"
  have dir: "RUNAGENT_SOCKET_DIR ?s2 = RUNAGENT_SOCKET_DIR s"
    by (simp add: rebuild_configs_frame reload_context_frame)
  have u: "UsingRunagentSocket ?s2 = UsingRunagentSocket s"
    by (rule UsingRunagentSocket_cong [OF dir])
  have g: "GetRunagentSocketInfo ext ?s2 = GetRunagentSocketInfo ext s"
    by (rule GetRunagentSocketInfo_cong [OF dir])
  have tr: "trace ?s2 = trace s @
     [Log LOG_LEVEL_INFO ''Re-reading promise file'', Call ''PolicyDestroy'',
      Call ''ExecConfigDestroy'', Call ''ExecdConfigDestroy'']"
    by (simp add: rebuild_configs_frame reload_context_frame)
  have "trace (full_reload ext env s) =
      trace (reapply_runagent_acl ext (runagent_allow_users (execd_config s)) ?s2)
      @ [SetFacility (log_facility (execd_config ?s2))]"
    by (simp add: full_reload_def Let_def reapply_runagent_acl_frame reload_context_frame)
  then show ?thesis
    unfolding reapply_runagent_acl_trace full_reload_execd_config u g tr
      SetRunagentSocketACLs_frame
    by simp
qed

text \<open>The effects of a call of \<open>ScheduleRun\<close> that reloads in full, in order.\<close>

lemma ScheduleRun_full_effects:
  assumes full: "fst (CheckNewPromises env st) = RELOAD_FULL"
  shows "\<exists>m. effects_since st (snd (ScheduleRun ext env st)) =
     effects_since st (snd (CheckNewPromises env st)) @
     [Log LOG_LEVEL_INFO ''Re-reading promise file'', Call ''PolicyDestroy'',
      Call ''ExecConfigDestroy'', Call ''ExecdConfigDestroy'']
     @ (if UsingRunagentSocket st then
        (if set (runagent_allow_users (execd_config st))
              \<noteq> set (runagent_allow_users (execd_config (snd (ScheduleRun ext env st)))) then
           (if fst (GetRunagentSocketInfo ext st) then
              AllowAccessForUsers_call (snd (GetRunagentSocketInfo ext st))
                  (runagent_allow_users (execd_config (snd (ScheduleRun ext env st)))) True False
              # (if AllowAccessForUsers ext (snd (GetRunagentSocketInfo ext st))
                       (runagent_allow_users (execd_config (snd (ScheduleRun ext env st)))) True False
                 then [AllowAccessForUsers_call
                         (ChopLastNode ext (snd (GetRunagentSocketInfo ext st)))
                         (runagent_allow_users (execd_config (snd (ScheduleRun ext env st)))) False True]
                 else [])
              @ (if AllowAccessForUsers ext (snd (GetRunagentSocketInfo ext st))
                       (runagent_allow_users (execd_config (snd (ScheduleRun ext env st)))) True False
                    \<and> AllowAccessForUsers ext (ChopLastNode ext (snd (GetRunagentSocketInfo ext st)))
                       (runagent_allow_users (execd_config (snd (ScheduleRun ext env st)))) False True
                 then []
                 else [Log LOG_LEVEL_ERR
                   ''Failed to allow new runagent_socket_allow_users users access the runagent socket (on policy reload)''])
            else [Log LOG_LEVEL_ERR ''Failed to get runagent.socket path''])
         else [])
        @ [Call ''StringSetDestroy'']
      else [])
     @ [SetFacility (log_facility (execd_config (snd (ScheduleRun ext env st)))),
        Log LOG_LEVEL_VERBOSE m]"
proof -
  let ?c = "snd (CheckNewPromises env st)"
  obtain m where m: "snd (ScheduleRun ext env st) =
      emit (Log LOG_LEVEL_VERBOSE m) (full_reload ext env ?c)"
    using ScheduleRun_snd [of ext env st] full by (auto simp add: reloaded_def)
  have dir: "RUNAGENT_SOCKET_DIR ?c = RUNAGENT_SOCKET_DIR st"
    by (simp add: CheckNewPromises_frame)
  have u: "UsingRunagentSocket ?c = UsingRunagentSocket st"
    by (rule UsingRunagentSocket_cong [OF dir])
  have g: "GetRunagentSocketInfo ext ?c = GetRunagentSocketInfo ext st"
    by (rule GetRunagentSocketInfo_cong [OF dir])
  have e: "execd_config ?c = execd_config st"
    by (simp add: CheckNewPromises_frame)
  have len: "length (trace st) \<le> length (trace ?c)"
    by (simp add: CheckNewPromises_trace)
  have ex: "execd_config (snd (ScheduleRun ext env st)) = execd_config (full_reload ext env ?c)"
    by (simp add: m)
  note fr = full_reload_trace [of ext env ?c, unfolded u g e, folded ex]
  have "effects_since st (snd (ScheduleRun ext env st)) =
      drop (length (trace st)) (trace (full_reload ext env ?c) @ [Log LOG_LEVEL_VERBOSE m])"
    by (simp add: effects_since_def m)
  then show ?thesis
    unfolding fr effects_since_def using len by (intro exI [of _ m]) simp
qed

subsection \<open>The schedule decision\<close>

text \<open>
  Claim C1. \<open>ScheduleRun\<close> returns true if and only if at least one member of the schedule
  of the \<open>ExecdConfig\<close> in force when it returns (the one it has just rebuilt, after a full
  reload) is a defined class of the context at that moment. In particular, with an empty
  schedule it returns false, whatever the context holds.
\<close>

theorem ScheduleRun_existential:
  "fst (ScheduleRun ext env st) =
     (\<exists>c \<in> set (schedule (execd_config (snd (ScheduleRun ext env st)))).
        IsDefinedClass ext (ctx (snd (ScheduleRun ext env st))) c)
   \<and> (schedule (execd_config (snd (ScheduleRun ext env st))) = [] \<longrightarrow>
        \<not> fst (ScheduleRun ext env st))"
proof (cases "schedule_loop (IsDefinedClass ext) (ctx (reloaded ext env st))
                (schedule (execd_config (reloaded ext env st)))")
  case None
  then show ?thesis
    using schedule_loop_None [of "IsDefinedClass ext" "ctx (reloaded ext env st)"
        "schedule (execd_config (reloaded ext env st))"]
    by (simp add: ScheduleRun_unfold)
next
  case (Some a)
  then show ?thesis
    using schedule_loop_None [of "IsDefinedClass ext" "ctx (reloaded ext env st)"
        "schedule (execd_config (reloaded ext env st))"]
    by (auto simp add: ScheduleRun_unfold)
qed

theorem ScheduleRun_existential_witness:
  "fst (ScheduleRun demo_ext tick_quiet demo_state)
   \<and> schedule (execd_config (snd (ScheduleRun demo_ext tick_quiet demo_state_no_schedule))) = []
   \<and> \<not> fst (ScheduleRun demo_ext tick_quiet demo_state_no_schedule)"
proof -
  have a: "\<exists>c \<in> set (schedule (execd_config (snd (ScheduleRun demo_ext tick_quiet demo_state)))).
        IsDefinedClass demo_ext (ctx (snd (ScheduleRun demo_ext tick_quiet demo_state))) c"
    by code_simp
  have b: "schedule (execd_config (snd (ScheduleRun demo_ext tick_quiet demo_state_no_schedule))) = []"
    by code_simp
  show ?thesis
    using a b ScheduleRun_existential [of demo_ext tick_quiet demo_state]
      ScheduleRun_existential [of demo_ext tick_quiet demo_state_no_schedule]
    by blast
qed

subsection \<open>The reload decision\<close>

text \<open>
  Claim C2. \<open>CheckNewPromises\<close> answers \<open>RELOAD_FULL\<close> if and only if the stored
  \<open>last_validated_at\<close> is strictly less than the timestamp read from the policy-validated
  file or a reload has been requested, and \<open>GenericAgentArePromisesValid\<close> returns true; in
  every other case it answers \<open>RELOAD_ENVIRONMENT\<close>. \<open>ScheduleRun\<close> performs the full
  reload exactly in the first case and the environment reload otherwise, and then logs its
  decision.
\<close>

theorem full_reload_iff:
  "(fst (CheckNewPromises env st) = RELOAD_FULL) =
     ((last_validated_at (config st) < validated_at env \<or> reload_requested st)
      \<and> promises_valid env)
   \<and> (fst (CheckNewPromises env st) = RELOAD_ENVIRONMENT) =
     (\<not> ((last_validated_at (config st) < validated_at env \<or> reload_requested st)
         \<and> promises_valid env))
   \<and> (\<exists>m. snd (ScheduleRun ext env st) =
         emit (Log LOG_LEVEL_VERBOSE m)
           (if (last_validated_at (config st) < validated_at env \<or> reload_requested st)
               \<and> promises_valid env
            then full_reload ext env (snd (CheckNewPromises env st))
            else environment_reload ext env (snd (CheckNewPromises env st))))"
proof -
  have a: "(fst (CheckNewPromises env st) = RELOAD_FULL) =
     ((last_validated_at (config st) < validated_at env \<or> reload_requested st)
      \<and> promises_valid env)"
    by (rule CheckNewPromises_fst)
  have b: "(fst (CheckNewPromises env st) = RELOAD_ENVIRONMENT) =
     (\<not> ((last_validated_at (config st) < validated_at env \<or> reload_requested st)
         \<and> promises_valid env))"
    using a by (cases "fst (CheckNewPromises env st)") auto
  have c: "\<exists>m. snd (ScheduleRun ext env st) =
         emit (Log LOG_LEVEL_VERBOSE m)
           (if (last_validated_at (config st) < validated_at env \<or> reload_requested st)
               \<and> promises_valid env
            then full_reload ext env (snd (CheckNewPromises env st))
            else environment_reload ext env (snd (CheckNewPromises env st)))"
    using ScheduleRun_snd [of ext env st] unfolding reloaded_def a .
  from a b c show ?thesis by blast
qed

theorem full_reload_iff_witness:
  "fst (CheckNewPromises tick_new_valid demo_state) = RELOAD_FULL
   \<and> fst (CheckNewPromises tick_new_valid (demo_state\<lparr>reload_requested := True\<rparr>)) = RELOAD_FULL
   \<and> fst (CheckNewPromises tick_quiet (demo_state\<lparr>reload_requested := True\<rparr>)) = RELOAD_FULL
   \<and> fst (CheckNewPromises tick_new_broken demo_state) = RELOAD_ENVIRONMENT
   \<and> fst (CheckNewPromises tick_quiet demo_state) = RELOAD_ENVIRONMENT"
  using full_reload_iff [of tick_new_valid demo_state demo_ext]
    full_reload_iff [of tick_new_valid "demo_state\<lparr>reload_requested := True\<rparr>" demo_ext]
    full_reload_iff [of tick_quiet "demo_state\<lparr>reload_requested := True\<rparr>" demo_ext]
    full_reload_iff [of tick_new_broken demo_state demo_ext]
    full_reload_iff [of tick_quiet demo_state demo_ext]
  by (simp add: demo_state_def tick_new_valid_def tick_new_broken_def tick_quiet_def)

text \<open>
  Claim C3. When a reload is triggered and \<open>GenericAgentArePromisesValid\<close> returns false,
  \<open>ScheduleRun\<close> leaves the policy, the \<open>ExecdConfig\<close> and the \<open>ExecConfig\<close> as they
  were; the context is the old one cleared, with the environment detected and the time
  classes rebuilt (the environment reload); and the only effects of the call are log lines,
  among them the info-level line about the rejected policy, and the validation itself.
\<close>

theorem rejected_policy_keeps_configuration:
  assumes trig: "last_validated_at (config st) < validated_at env \<or> reload_requested st"
    and bad: "\<not> promises_valid env"
  shows "policy (snd (ScheduleRun ext env st)) = policy st
    \<and> execd_config (snd (ScheduleRun ext env st)) = execd_config st
    \<and> exec_config (snd (ScheduleRun ext env st)) = exec_config st
    \<and> ctx (snd (ScheduleRun ext env st)) =
        UpdateTimeClasses ext (DetectEnvironment ext (EvalContextClear ext (ctx st)))
          (reference_time env)
    \<and> (\<exists>m. effects_since st (snd (ScheduleRun ext env st)) =
          [Log LOG_LEVEL_DEBUG ''Checking file updates for input file'']
          @ (if last_validated_at (config st) < validated_at env
             then [Log LOG_LEVEL_VERBOSE ''New promises detected...''] else [])
          @ (if reload_requested st
             then [Log LOG_LEVEL_VERBOSE ''Force reload of inputs files...''] else [])
          @ [Call ''GenericAgentArePromisesValid'',
             Log LOG_LEVEL_INFO ''New promises file contains syntax errors -- ignoring'',
             Log LOG_LEVEL_VERBOSE m])"
proof -
  let ?c = "snd (CheckNewPromises env st)"
  have chk: "fst (CheckNewPromises env st) \<noteq> RELOAD_FULL"
    using bad by (simp add: CheckNewPromises_fst)
  obtain m where m: "snd (ScheduleRun ext env st) =
      emit (Log LOG_LEVEL_VERBOSE m) (environment_reload ext env ?c)"
    using ScheduleRun_snd [of ext env st] chk by (auto simp add: reloaded_def)
  have frame: "policy (environment_reload ext env ?c) = policy st"
    "execd_config (environment_reload ext env ?c) = execd_config st"
    "exec_config (environment_reload ext env ?c) = exec_config st"
    "ctx (environment_reload ext env ?c) =
        UpdateTimeClasses ext (DetectEnvironment ext (EvalContextClear ext (ctx st)))
          (reference_time env)"
    by (simp_all add: environment_reload_def Let_def CheckNewPromises_frame)
  have eff: "effects_since st (snd (ScheduleRun ext env st)) =
          [Log LOG_LEVEL_DEBUG ''Checking file updates for input file'']
          @ (if last_validated_at (config st) < validated_at env
             then [Log LOG_LEVEL_VERBOSE ''New promises detected...''] else [])
          @ (if reload_requested st
             then [Log LOG_LEVEL_VERBOSE ''Force reload of inputs files...''] else [])
          @ [Call ''GenericAgentArePromisesValid'',
             Log LOG_LEVEL_INFO ''New promises file contains syntax errors -- ignoring'',
             Log LOG_LEVEL_VERBOSE m]"
    using trig bad
    by (simp add: effects_since_def m environment_reload_trace CheckNewPromises_trace)
  from frame eff show ?thesis unfolding m by (simp only: emit_fields) blast
qed

theorem rejected_policy_keeps_configuration_witness:
  "(last_validated_at (config demo_state) < validated_at tick_new_broken
      \<or> reload_requested demo_state)
   \<and> \<not> promises_valid tick_new_broken
   \<and> policy (snd (ScheduleRun demo_ext tick_new_broken demo_state)) = Some ''policy-1''
   \<and> schedule (execd_config (snd (ScheduleRun demo_ext tick_new_broken demo_state)))
       = [''Min00_05'', ''Min30_35'']
   \<and> exec_config (snd (ScheduleRun demo_ext tick_new_broken demo_state)) = ''exec-config-1''
   \<and> ctx (snd (ScheduleRun demo_ext tick_new_broken demo_state)) = [''Min00_05'', ''linux'']"
proof -
  have h1: "last_validated_at (config demo_state) < validated_at tick_new_broken
      \<or> reload_requested demo_state"
    by (simp add: demo_state_def tick_new_broken_def)
  have h2: "\<not> promises_valid tick_new_broken"
    by (simp add: tick_new_broken_def)
  show ?thesis
    using h1 h2 rejected_policy_keeps_configuration [OF h1 h2, of demo_ext]
    by (simp add: demo_state_def demo_ext_def tick_new_broken_def)
qed

text \<open>
  Claim C9. When a reload is triggered and the new policy fails validation,
  \<open>CheckNewPromises\<close> returns with the reload request cleared and \<open>last_validated_at\<close> set
  to the timestamp it read. On the next call the validation is therefore run again if and
  only if the timestamp on disk is strictly greater than that one or a reload has been
  requested in the meantime (\<open>again\<close>); a call that does not validate leaves both
  variables as they are, so the same holds for every later call.
\<close>

theorem rejected_policy_not_reexamined:
  assumes trig: "last_validated_at (config st) < validated_at env \<or> reload_requested st"
    and bad: "\<not> promises_valid env"
  shows "fst (CheckNewPromises env st) = RELOAD_ENVIRONMENT
    \<and> \<not> reload_requested (snd (CheckNewPromises env st))
    \<and> last_validated_at (config (snd (CheckNewPromises env st))) = validated_at env
    \<and> ((Call ''GenericAgentArePromisesValid''
          \<in> set (effects_since ((snd (CheckNewPromises env st))\<lparr>reload_requested := again\<rparr>)
                   (snd (CheckNewPromises env2
                      ((snd (CheckNewPromises env st))\<lparr>reload_requested := again\<rparr>)))))
        = (validated_at env < validated_at env2 \<or> again))
    \<and> (\<not> (validated_at env < validated_at env2 \<or> again) \<longrightarrow>
         last_validated_at (config (snd (CheckNewPromises env2
             ((snd (CheckNewPromises env st))\<lparr>reload_requested := again\<rparr>)))) = validated_at env
         \<and> \<not> reload_requested (snd (CheckNewPromises env2
             ((snd (CheckNewPromises env st))\<lparr>reload_requested := again\<rparr>))))"
proof -
  have a: "fst (CheckNewPromises env st) = RELOAD_ENVIRONMENT"
    using bad CheckNewPromises_fst [of env st] by (cases "fst (CheckNewPromises env st)") auto
  have b: "\<not> reload_requested (snd (CheckNewPromises env st))"
    using trig by (simp add: CheckNewPromises_flags)
  have c: "last_validated_at (config (snd (CheckNewPromises env st))) = validated_at env"
    using trig by (simp add: CheckNewPromises_flags)
  show ?thesis
    using a b c by (simp add: CheckNewPromises_validation_called CheckNewPromises_flags)
qed

theorem rejected_policy_not_reexamined_witness:
  "(last_validated_at (config demo_state) < validated_at tick_new_broken
      \<or> reload_requested demo_state)
   \<and> \<not> promises_valid tick_new_broken
   \<and> last_validated_at (config (snd (CheckNewPromises tick_new_broken demo_state))) = 200
   \<and> Call ''GenericAgentArePromisesValid''
       \<notin> set (effects_since
                ((snd (CheckNewPromises tick_new_broken demo_state))\<lparr>reload_requested := False\<rparr>)
                (snd (CheckNewPromises tick_new_broken
                   ((snd (CheckNewPromises tick_new_broken demo_state))\<lparr>reload_requested := False\<rparr>))))
   \<and> Call ''GenericAgentArePromisesValid''
       \<in> set (effects_since
                ((snd (CheckNewPromises tick_new_broken demo_state))\<lparr>reload_requested := True\<rparr>)
                (snd (CheckNewPromises tick_new_broken
                   ((snd (CheckNewPromises tick_new_broken demo_state))\<lparr>reload_requested := True\<rparr>))))"
proof -
  have h1: "last_validated_at (config demo_state) < validated_at tick_new_broken
      \<or> reload_requested demo_state"
    by (simp add: demo_state_def tick_new_broken_def)
  have h2: "\<not> promises_valid tick_new_broken"
    by (simp add: tick_new_broken_def)
  show ?thesis
    using h1 h2
      rejected_policy_not_reexamined [OF h1 h2, of False tick_new_broken]
      rejected_policy_not_reexamined [OF h1 h2, of True tick_new_broken]
    by (simp add: tick_new_broken_def)
qed

subsection \<open>Access control on reload\<close>

lemma CheckNewPromises_no_acl:
  "filter is_acl_call (effects_since st (snd (CheckNewPromises env st))) = []"
  by (simp add: effects_since_def CheckNewPromises_trace)

text \<open>
  Claim C8. On a full reload with the runagent socket enabled (the socket is in use and
  its path can be built, which \<open>SetupRunagentSocket\<close> tests before it creates the socket),
  the set of allowed users of the old \<open>ExecdConfig\<close> is compared with the set of the new
  one, and the ACL is applied again exactly when the two sets differ: with the new set, to
  the socket and, if that succeeds, to its directory. Every ACL call comes after
  \<open>ExecdConfigDestroy\<close> and before the old set is released, so the old set was taken
  over before the old \<open>ExecdConfig\<close> was destroyed. If applying the ACL fails an error is
  logged; in every case \<open>ScheduleRun\<close> goes on to release the old set, set the log
  facility and take its schedule decision.
\<close>

theorem acl_reapplied_on_reload:
  fixes st :: "('ctx, 'pol, 'xc) daemon"
  assumes full: "fst (CheckNewPromises env st) = RELOAD_FULL"
    and use: "UsingRunagentSocket st"
    and path: "fst (GetRunagentSocketInfo ext st)"
  shows "((filter is_acl_call (effects_since st (snd (ScheduleRun ext env st))) \<noteq> []) =
       (set (runagent_allow_users (execd_config st))
          \<noteq> set (runagent_allow_users (execd_config (snd (ScheduleRun ext env st))))))
   \<and> filter is_acl_call (effects_since st (snd (ScheduleRun ext env st))) =
       (if set (runagent_allow_users (execd_config st))
             \<noteq> set (runagent_allow_users (execd_config (snd (ScheduleRun ext env st))))
        then AllowAccessForUsers_call (snd (GetRunagentSocketInfo ext st))
               (runagent_allow_users (execd_config (snd (ScheduleRun ext env st)))) True False
             # (if AllowAccessForUsers ext (snd (GetRunagentSocketInfo ext st))
                     (runagent_allow_users (execd_config (snd (ScheduleRun ext env st)))) True False
                then [AllowAccessForUsers_call (ChopLastNode ext (snd (GetRunagentSocketInfo ext st)))
                        (runagent_allow_users (execd_config (snd (ScheduleRun ext env st))))
                        False True]
                else [])
        else [])
   \<and> (set (runagent_allow_users (execd_config st))
          \<noteq> set (runagent_allow_users (execd_config (snd (ScheduleRun ext env st))))
        \<and> \<not> (AllowAccessForUsers ext (snd (GetRunagentSocketInfo ext st))
                (runagent_allow_users (execd_config (snd (ScheduleRun ext env st)))) True False
             \<and> AllowAccessForUsers ext (ChopLastNode ext (snd (GetRunagentSocketInfo ext st)))
                (runagent_allow_users (execd_config (snd (ScheduleRun ext env st)))) False True)
        \<longrightarrow>
        Log LOG_LEVEL_ERR
          ''Failed to allow new runagent_socket_allow_users users access the runagent socket (on policy reload)''
          \<in> set (effects_since st (snd (ScheduleRun ext env st))))
   \<and> (\<exists>before between m.
         effects_since st (snd (ScheduleRun ext env st)) =
           before @ [Call ''ExecdConfigDestroy''] @ between @
           [Call ''StringSetDestroy'',
            SetFacility (log_facility (execd_config (snd (ScheduleRun ext env st)))),
            Log LOG_LEVEL_VERBOSE m]
         \<and> filter is_acl_call before = [])"
proof -
  let ?st' = "snd (ScheduleRun ext env st)"
  let ?new = "runagent_allow_users (execd_config ?st')"
  let ?info = "GetRunagentSocketInfo ext st"
  define C where "C = effects_since st (snd (CheckNewPromises env st))"
  define A :: "'xc effect list" where "A =
    (if set (runagent_allow_users (execd_config st)) \<noteq> set ?new then
       AllowAccessForUsers_call (snd ?info) ?new True False
       # (if AllowAccessForUsers ext (snd ?info) ?new True False
          then [AllowAccessForUsers_call (ChopLastNode ext (snd ?info)) ?new False True]
          else [])
       @ (if AllowAccessForUsers ext (snd ?info) ?new True False
             \<and> AllowAccessForUsers ext (ChopLastNode ext (snd ?info)) ?new False True
          then []
          else [Log LOG_LEVEL_ERR
            ''Failed to allow new runagent_socket_allow_users users access the runagent socket (on policy reload)''])
     else [])"
  obtain m where E: "effects_since st ?st' =
      C @ [Log LOG_LEVEL_INFO ''Re-reading promise file'', Call ''PolicyDestroy'',
           Call ''ExecConfigDestroy'', Call ''ExecdConfigDestroy'']
        @ A @ [Call ''StringSetDestroy'', SetFacility (log_facility (execd_config ?st')),
               Log LOG_LEVEL_VERBOSE m]"
    using ScheduleRun_full_effects [OF full, of ext] use path
    unfolding C_def A_def by auto
  have Cacl: "filter is_acl_call C = []"
    unfolding C_def by (rule CheckNewPromises_no_acl)
  have F: "filter is_acl_call (effects_since st ?st') = filter is_acl_call A"
    unfolding E by (simp add: Cacl)
  have c1: "(filter is_acl_call (effects_since st ?st') \<noteq> []) =
       (set (runagent_allow_users (execd_config st)) \<noteq> set ?new)"
    unfolding F A_def by simp
  have c2: "filter is_acl_call (effects_since st ?st') =
       (if set (runagent_allow_users (execd_config st)) \<noteq> set ?new
        then AllowAccessForUsers_call (snd ?info) ?new True False
             # (if AllowAccessForUsers ext (snd ?info) ?new True False
                then [AllowAccessForUsers_call (ChopLastNode ext (snd ?info)) ?new False True]
                else [])
        else [])"
    unfolding F A_def by simp
  have c3: "set (runagent_allow_users (execd_config st)) \<noteq> set ?new
        \<and> \<not> (AllowAccessForUsers ext (snd ?info) ?new True False
             \<and> AllowAccessForUsers ext (ChopLastNode ext (snd ?info)) ?new False True)
        \<longrightarrow>
        Log LOG_LEVEL_ERR
          ''Failed to allow new runagent_socket_allow_users users access the runagent socket (on policy reload)''
          \<in> set (effects_since st ?st')"
    unfolding E A_def by simp
  have "effects_since st ?st' =
      (C @ [Log LOG_LEVEL_INFO ''Re-reading promise file'', Call ''PolicyDestroy'',
           Call ''ExecConfigDestroy'']) @ [Call ''ExecdConfigDestroy''] @ A @
      [Call ''StringSetDestroy'', SetFacility (log_facility (execd_config ?st')),
       Log LOG_LEVEL_VERBOSE m]
    \<and> filter is_acl_call (C @ [Log LOG_LEVEL_INFO ''Re-reading promise file'',
         Call ''PolicyDestroy'', Call ''ExecConfigDestroy'']) = []"
    unfolding E by (simp add: Cacl)
  then have c4: "\<exists>before between m.
         effects_since st ?st' =
           before @ [Call ''ExecdConfigDestroy''] @ between @
           [Call ''StringSetDestroy'', SetFacility (log_facility (execd_config ?st')),
            Log LOG_LEVEL_VERBOSE m]
         \<and> filter is_acl_call before = []"
    by blast
  from c1 c2 c3 c4 show ?thesis by blast
qed

theorem acl_reapplied_on_reload_witness:
  "fst (CheckNewPromises tick_new_valid demo_state) = RELOAD_FULL
   \<and> UsingRunagentSocket demo_state
   \<and> fst (GetRunagentSocketInfo demo_ext demo_state)
   \<and> set (runagent_allow_users (execd_config demo_state))
       \<noteq> set (runagent_allow_users (execd_config (snd (ScheduleRun demo_ext tick_new_valid demo_state))))
   \<and> filter is_acl_call (effects_since demo_state
         (snd (ScheduleRun demo_ext tick_new_valid demo_state))) \<noteq> []
   \<and> fst (CheckNewPromises (tick_quiet\<lparr>validated_at := 300\<rparr>)
            (snd (ScheduleRun demo_ext tick_new_valid demo_state))) = RELOAD_FULL
   \<and> filter is_acl_call
        (effects_since (snd (ScheduleRun demo_ext tick_new_valid demo_state))
           (snd (ScheduleRun demo_ext (tick_quiet\<lparr>validated_at := 300\<rparr>)
                   (snd (ScheduleRun demo_ext tick_new_valid demo_state))))) = []"
proof -
  let ?s1 = "snd (ScheduleRun demo_ext tick_new_valid demo_state)"
  let ?e2 = "tick_quiet\<lparr>validated_at := 300\<rparr>"
  have h1: "fst (CheckNewPromises tick_new_valid demo_state) = RELOAD_FULL"
    by code_simp
  have h2: "UsingRunagentSocket demo_state"
    by code_simp
  have h3: "fst (GetRunagentSocketInfo demo_ext demo_state)"
    by code_simp
  have h4: "set (runagent_allow_users (execd_config demo_state))
       \<noteq> set (runagent_allow_users (execd_config ?s1))"
    by code_simp
  have k1: "fst (CheckNewPromises ?e2 ?s1) = RELOAD_FULL"
    by code_simp
  have k2: "UsingRunagentSocket ?s1"
    by code_simp
  have k3: "fst (GetRunagentSocketInfo demo_ext ?s1)"
    by code_simp
  have k4: "set (runagent_allow_users (execd_config ?s1))
       = set (runagent_allow_users (execd_config (snd (ScheduleRun demo_ext ?e2 ?s1))))"
    by code_simp
  show ?thesis
    using h1 h2 h3 h4 k1 k4
      acl_reapplied_on_reload [OF h1 h2 h3]
      acl_reapplied_on_reload [OF k1 k2 k3]
    by blast
qed

subsection \<open>The multiplexed sleep\<close>

lemma deliver_term_fields [simp]:
  "termination_pending (deliver_term b st) = (termination_pending st \<or> b)"
  "trace (deliver_term b st) = trace st"
  "open_fds (deliver_term b st) = open_fds st"
  "execd_config (deliver_term b st) = execd_config st"
  "exec_config (deliver_term b st) = exec_config st"
  by (simp_all add: deliver_term_def)

lemma select_step_pending:
  "termination_pending st \<or> term_in_select ev \<Longrightarrow>
     termination_pending (snd (select_step seconds reason sock cmd started remaining ev st))"
  by (cases "sel_result ev") (simp_all add: select_step_def Let_def IsPendingTermination_def)

lemma select_step_return:
  "fst (select_step seconds reason sock cmd started remaining ev st) = StepReturn b \<Longrightarrow>
     b \<and> termination_pending (snd (select_step seconds reason sock cmd started remaining ev st))"
  by (cases "sel_result ev")
     (auto simp add: select_step_def Let_def IsPendingTermination_def split: if_splits)

lemma select_loop_pending:
  "select_loop seconds reason sock cmd started remaining st evs = Some (r, st', rest) \<Longrightarrow>
     (\<exists>pre. evs = pre @ rest
        \<and> (termination_pending st \<or> (\<exists>ev\<in>set pre. term_in_select ev) \<longrightarrow> termination_pending st'))
     \<and> (\<forall>b. r = Some (Returned b) \<longrightarrow> b \<and> termination_pending st')"
proof (induction seconds reason sock cmd started remaining st evs
       rule: select_loop.induct)
  case (1 seconds reason sock cmd started remaining st)
  then show ?case by (simp split: if_splits)
next
  case (2 seconds reason sock cmd started remaining st ev rest0)
  show ?case
  proof (cases "tv_sec remaining \<noteq> 0")
    case False
    with "2.prems" show ?thesis by auto
  next
    case True
    obtain s st1 where step: "select_step seconds reason sock cmd started remaining ev st = (s, st1)"
      by (cases "select_step seconds reason sock cmd started remaining ev st")
    have mono: "termination_pending st \<or> term_in_select ev \<Longrightarrow> termination_pending st1"
      using select_step_pending [of st ev seconds reason sock cmd started remaining] step by simp
    show ?thesis
    proof (cases s)
      case (Continue remaining')
      from "2.prems" True step Continue
      have loop: "select_loop seconds reason sock cmd started remaining' st1 rest0 = Some (r, st', rest)"
        by simp
      from "2.IH" [OF True step [symmetric] Continue loop]
      obtain pre where pre: "rest0 = pre @ rest"
        "termination_pending st1 \<or> (\<exists>ev\<in>set pre. term_in_select ev) \<longrightarrow> termination_pending st'"
        and ret: "\<forall>b. r = Some (Returned b) \<longrightarrow> b \<and> termination_pending st'"
        by blast
      have "ev # rest0 = (ev # pre) @ rest" using pre by simp
      moreover have "termination_pending st \<or> (\<exists>e\<in>set (ev # pre). term_in_select e)
          \<longrightarrow> termination_pending st'"
        using pre mono by auto
      ultimately show ?thesis using ret by blast
    next
      case (StepReturn b)
      from "2.prems" True step StepReturn
      have eq: "r = Some (Returned b)" "st' = st1" "rest = rest0" by simp_all
      have "b \<and> termination_pending st1"
        using select_step_return [of seconds reason sock cmd started remaining ev st b] step StepReturn
        by simp
      then show ?thesis using eq by (intro conjI exI [of _ "[ev]"]) auto
    next
      case (StepExit c)
      from "2.prems" True step StepExit
      have eq: "r = Some (Exited c)" "st' = st1" "rest = rest0" by simp_all
      show ?thesis using eq mono by (intro conjI exI [of _ "[ev]"]) auto
    qed
  qed
qed

lemma HandleRequestsOrSleep_result_is_flag:
  assumes "HandleRequestsOrSleep seconds reason sock cmd env st = Some (Returned b, st', rest)"
  shows "b = termination_pending st'"
proof (cases "IsPendingTermination st")
  case True
  with assms show ?thesis
    by (simp add: HandleRequestsOrSleep_def IsPendingTermination_def)
next
  case False
  show ?thesis
  proof (cases "sock \<ge> 0")
    case no_listener: False
    with assms False show ?thesis
      by (auto simp add: HandleRequestsOrSleep_def Let_def IsPendingTermination_def)
  next
    case listener: True
    let ?st1 = "emit (Log LOG_LEVEL_VERBOSE (''Sleeping for '' @ reason)) st"
    from assms False listener
    obtain r where loop: "select_loop seconds reason sock cmd (time_at_start env)
          \<lparr>tv_sec = seconds, tv_usec = 0\<rparr> ?st1 (select_events env) = Some (r, st', rest)"
      and res: "(case r of Some oc \<Rightarrow> oc | None \<Rightarrow> Returned (IsPendingTermination st')) = Returned b"
      by (auto simp add: HandleRequestsOrSleep_def Let_def split: option.splits)
    show ?thesis
    proof (cases r)
      case None
      with res show ?thesis by (simp add: IsPendingTermination_def)
    next
      case (Some oc)
      with res have "r = Some (Returned b)" by simp
      with select_loop_pending [OF loop] show ?thesis by simp
    qed
  qed
qed





lemma select_loop_spins_on_EINVAL:
  "select_loop seconds reason sock cmd started \<lparr>tv_sec = - 1, tv_usec = 400000\<rparr> st
     (replicate n ev_einval) = None"
proof (induction n arbitrary: st)
  case 0
  show ?case by simp
next
  case (Suc n)
  have step: "fst (select_step seconds reason sock cmd started
                     \<lparr>tv_sec = - 1, tv_usec = 400000\<rparr> ev_einval st) =
              Continue \<lparr>tv_sec = - 1, tv_usec = 400000\<rparr>"
    by (simp add: select_step_def Let_def ev_einval_def)
  show ?case
    using step Suc.IH
    by (cases "select_step seconds reason sock cmd started
                 \<lparr>tv_sec = - 1, tv_usec = 400000\<rparr> ev_einval st") simp
qed

text \<open>
  Claim C5 at two concrete inputs, both waits on the listening socket 3 that started at
  time 1000.

  A wait of 30 seconds; a client connects in its last second and the clock moves from 1030
  to 1031 between the two evaluations of \<open>time(NULL)\<close> inside \<open>MAX\<close>. The comparison sees
  \<open>30 - 30 = 0\<close>, which is not below zero, and \<open>MAX\<close> yields \<open>30 - 31\<close>: the new
  \<open>tv_sec\<close> is \<open>-1\<close>, not floored at zero. The loop goes on, since \<open>-1\<close> is not 0; every
  \<open>select\<close> now fails on the negative timeout and leaves it in place, and however many
  times it is called \<open>HandleRequestsOrSleep\<close> does not return.

  A wait of 2 seconds; a client connects after 1.000185 seconds. \<open>remaining.tv_sec\<close> is
  set to \<open>2 - 1 = 1\<close>, and the 999815 microseconds \<open>select\<close> had written back stay in
  \<open>remaining.tv_usec\<close>: the next \<open>select\<close> is given 1.999815 seconds, which ends
  3 seconds after the start.
\<close>

theorem remaining_not_floored_and_extended:
  "fst (select_step 30 ''splay time'' 3 None 1000 \<lparr>tv_sec = 30, tv_usec = 0\<rparr> ev_late_request
          (emit (Log LOG_LEVEL_VERBOSE ''Sleeping for splay time'') demo_state)) =
     Continue \<lparr>tv_sec = - 1, tv_usec = 400000\<rparr>
   \<and> HandleRequestsOrSleep 30 ''splay time'' 3 None
       (demo_wait (ev_late_request # replicate n ev_einval)) demo_state = None
   \<and> HandleRequestsOrSleep 2 ''splay time'' 3 None
       (demo_wait [ev_request_after_one_second, ev_timeout]) demo_state =
     Some (Returned False,
           demo_state\<lparr>open_fds := [7, 3],
             trace := [Log LOG_LEVEL_VERBOSE ''Sleeping for splay time'',
                       Select 4 \<lparr>tv_sec = 2, tv_usec = 0\<rparr>, Accept 3 7, Fork 1234,
                       Select 4 \<lparr>tv_sec = 1, tv_usec = 999815\<rparr>]\<rparr>,
           [])"
proof -
  let ?st1 = "emit (Log LOG_LEVEL_VERBOSE ''Sleeping for splay time'') demo_state"
  have a: "fst (select_step 30 ''splay time'' 3 None 1000 \<lparr>tv_sec = 30, tv_usec = 0\<rparr>
                  ev_late_request ?st1) =
           Continue \<lparr>tv_sec = - 1, tv_usec = 400000\<rparr>"
    by code_simp
  have loop: "select_loop 30 ''splay time'' 3 None 1000 \<lparr>tv_sec = 30, tv_usec = 0\<rparr> ?st1
                (ev_late_request # replicate n ev_einval) = None"
    using a select_loop_spins_on_EINVAL
    by (cases "select_step 30 ''splay time'' 3 None 1000 \<lparr>tv_sec = 30, tv_usec = 0\<rparr>
                 ev_late_request ?st1") simp
  have b: "HandleRequestsOrSleep 30 ''splay time'' 3 None
       (demo_wait (ev_late_request # replicate n ev_einval)) demo_state = None"
    using loop
    by (simp add: HandleRequestsOrSleep_def Let_def IsPendingTermination_def demo_state_def
        demo_wait_def)
  have c: "HandleRequestsOrSleep 2 ''splay time'' 3 None
       (demo_wait [ev_request_after_one_second, ev_timeout]) demo_state =
     Some (Returned False,
           demo_state\<lparr>open_fds := [7, 3],
             trace := [Log LOG_LEVEL_VERBOSE ''Sleeping for splay time'',
                       Select 4 \<lparr>tv_sec = 2, tv_usec = 0\<rparr>, Accept 3 7, Fork 1234,
                       Select 4 \<lparr>tv_sec = 1, tv_usec = 999815\<rparr>]\<rparr>,
           [])"
    by code_simp
  from a b c show ?thesis by blast
qed

text \<open>
  Claim C6 at a concrete input: a client connects during a 30-second wait on the listening
  socket 3 and \<open>accept\<close> returns descriptor 7. In the child (\<open>fork\<close> returns 0) the code
  resets \<open>SIGPIPE\<close>, calls \<open>HandleRunagentRequest\<close> on descriptor 7 and exits with
  \<open>EXIT_SUCCESS\<close>, as the claim says. In the parent (\<open>fork\<close> returns the child's pid) it
  goes straight back to \<open>select\<close>: descriptor 7 is never closed and is still open when
  \<open>HandleRequestsOrSleep\<close> returns.
\<close>

theorem accepted_descriptor_left_open:
  "HandleRequestsOrSleep 30 ''splay time'' 3 None (demo_wait [ev_request_child, ev_timeout])
       demo_state =
     Some (Exited EXIT_SUCCESS,
           demo_state\<lparr>open_fds := [7, 3],
             trace := [Log LOG_LEVEL_VERBOSE ''Sleeping for splay time'',
                       Select 4 \<lparr>tv_sec = 30, tv_usec = 0\<rparr>, Accept 3 7, Fork 0,
                       Signal_call ''SIGPIPE'' ''SIG_DFL'', HandleRunagentRequest 7 None]\<rparr>,
           [ev_timeout])
   \<and> HandleRequestsOrSleep 30 ''splay time'' 3 None (demo_wait [ev_request, ev_timeout])
       demo_state =
     Some (Returned False,
           demo_state\<lparr>open_fds := [7, 3],
             trace := [Log LOG_LEVEL_VERBOSE ''Sleeping for splay time'',
                       Select 4 \<lparr>tv_sec = 30, tv_usec = 0\<rparr>, Accept 3 7, Fork 1234,
                       Select 4 \<lparr>tv_sec = 27, tv_usec = 0\<rparr>]\<rparr>,
           [])"
  by code_simp

subsection \<open>The main loop\<close>

text \<open>
  Claim C7. In a pass of the main loop in which \<open>ScheduleRun\<close> says run and the splay
  sleep returns false, if \<open>fork\<close> fails in \<open>LocalExecInFork\<close> (which then returns a
  negative pid), the daemon logs at info level that it falls back to blocking execution,
  runs \<open>LocalExec\<close> itself with the current \<open>ExecConfig\<close>, and then goes on with the
  pulse sleep of \<open>CFPULSETIME\<close> seconds, whose result is the result of the pass. The
  pulse sleep does sleep: the termination flag is not set when it is entered.
\<close>

theorem fork_failure_falls_back_inline:
  assumes run: "fst (ScheduleRun ext (tick env) (reap_children (exited_children env) st))"
    and splay: "HandleRequestsOrSleep
                  (splay_time (execd_config
                     (snd (ScheduleRun ext (tick env) (reap_children (exited_children env) st)))))
                  ''splay time'' sock
                  (local_run_command (execd_config
                     (snd (ScheduleRun ext (tick env) (reap_children (exited_children env) st)))))
                  (splay_wait env)
                  (snd (ScheduleRun ext (tick env) (reap_children (exited_children env) st)))
                = Some (Returned False, st3, rest)"
    and fail: "exec_fork_ret env < 0"
  shows "CFExecdMainLoop_body ext sock env st =
      (case HandleRequestsOrSleep (CFPULSETIME ext) ''pulse time'' sock
              (local_run_command (execd_config st3)) (pulse_wait env)
              (st3\<lparr>trace := trace st3 @
                 [Log LOG_LEVEL_VERBOSE ''Forking for exec_command execution'',
                  Fork (exec_fork_ret env)]
                 @ (if exec_fork_ret env = - 1
                    then [Log LOG_LEVEL_ERR ''Failed to fork for exec_command execution'']
                    else [])
                 @ [Log LOG_LEVEL_INFO
                      ''Unable to run agent in a fork, falling back to blocking execution'',
                    LocalExec (exec_config st3)]\<rparr>) of
         None \<Rightarrow> None
       | Some (oc, st', unused) \<Rightarrow> Some (oc, st'))
    \<and> \<not> IsPendingTermination st3"
proof -
  have flag: "\<not> IsPendingTermination st3"
    using HandleRequestsOrSleep_result_is_flag [OF splay]
    by (simp add: IsPendingTermination_def)
  have fork: "LocalExecInFork (exec_fork_ret env) st3 =
      (Returned (exec_fork_ret env),
       st3\<lparr>trace := trace st3 @
                 [Log LOG_LEVEL_VERBOSE ''Forking for exec_command execution'',
                  Fork (exec_fork_ret env)]
                 @ (if exec_fork_ret env = - 1
                    then [Log LOG_LEVEL_ERR ''Failed to fork for exec_command execution'']
                    else [])\<rparr>)"
    using fail by (simp add: LocalExecInFork_def Let_def emit_def)
  have body: "CFExecdMainLoop_body ext sock env st =
      (case HandleRequestsOrSleep (CFPULSETIME ext) ''pulse time'' sock
              (local_run_command (execd_config st3)) (pulse_wait env)
              (emit (LocalExec (exec_config st3))
                 (emit (Log LOG_LEVEL_INFO
                    ''Unable to run agent in a fork, falling back to blocking execution'')
                    (snd (LocalExecInFork (exec_fork_ret env) st3)))) of
         None \<Rightarrow> None
       | Some (oc, st', unused) \<Rightarrow> Some (oc, st'))"
    unfolding CFExecdMainLoop_body_def Let_def
    using run fail by (simp add: splay fork)
  show ?thesis
    using body flag by (simp add: fork emit_def)
qed

theorem fork_failure_falls_back_inline_witness:
  "fst (ScheduleRun demo_ext (tick demo_pass) (reap_children (exited_children demo_pass) demo_state))
   \<and> exec_fork_ret demo_pass < 0
   \<and> \<not> IsPendingTermination demo_after_splay
   \<and> CFExecdMainLoop_body demo_ext 3 demo_pass demo_state =
      (case HandleRequestsOrSleep (CFPULSETIME demo_ext) ''pulse time'' 3
              (local_run_command (execd_config demo_after_splay)) (pulse_wait demo_pass)
              (demo_after_splay\<lparr>trace := trace demo_after_splay @
                 [Log LOG_LEVEL_VERBOSE ''Forking for exec_command execution'',
                  Fork (exec_fork_ret demo_pass)]
                 @ (if exec_fork_ret demo_pass = - 1
                    then [Log LOG_LEVEL_ERR ''Failed to fork for exec_command execution'']
                    else [])
                 @ [Log LOG_LEVEL_INFO
                      ''Unable to run agent in a fork, falling back to blocking execution'',
                    LocalExec (exec_config demo_after_splay)]\<rparr>) of
         None \<Rightarrow> None
       | Some (oc, st', unused) \<Rightarrow> Some (oc, st'))"
proof -
  have h1: "fst (ScheduleRun demo_ext (tick demo_pass)
                   (reap_children (exited_children demo_pass) demo_state))"
    by code_simp
  have h2: "HandleRequestsOrSleep
                  (splay_time (execd_config
                     (snd (ScheduleRun demo_ext (tick demo_pass)
                             (reap_children (exited_children demo_pass) demo_state)))))
                  ''splay time'' 3
                  (local_run_command (execd_config
                     (snd (ScheduleRun demo_ext (tick demo_pass)
                             (reap_children (exited_children demo_pass) demo_state)))))
                  (splay_wait demo_pass)
                  (snd (ScheduleRun demo_ext (tick demo_pass)
                          (reap_children (exited_children demo_pass) demo_state)))
                = Some (Returned False, demo_after_splay, [])"
    by code_simp
  have h3: "exec_fork_ret demo_pass < 0"
    by (simp add: demo_pass_def)
  show ?thesis
    using h1 h3 fork_failure_falls_back_inline [OF h1 h2 h3]
    by blast
qed

subsection \<open>Command line\<close>

lemma CheckOpts_switch_verbose:
  "CheckOpts_switch ext (Short CHR ''v'' a) c =
     Returned (c\<lparr>global_log_level := Some LOG_LEVEL_VERBOSE, NO_FORK := True\<rparr>)"
  by (simp add: CheckOpts_switch_def)

lemma CheckOpts_switch_no_fork_kept:
  "CheckOpts_switch ext opt c = Returned c' \<Longrightarrow> NO_FORK c \<Longrightarrow> NO_FORK c'"
  by (cases opt)
     (auto simp add: CheckOpts_switch_def Let_def split: if_splits option.splits)

lemma CheckOpts_loop_no_fork:
  "CheckOpts_loop ext opts c = Returned c' \<Longrightarrow>
     NO_FORK c \<or> Short CHR ''v'' a \<in> set opts \<Longrightarrow> NO_FORK c'"
proof (induction opts arbitrary: c)
  case Nil
  then show ?case by simp
next
  case (Cons opt opts)
  from Cons.prems(1) obtain c1 where step: "CheckOpts_switch ext opt c = Returned c1"
    and rest: "CheckOpts_loop ext opts c1 = Returned c'"
    by (cases "CheckOpts_switch ext opt c") simp_all
  have "NO_FORK c1 \<or> Short CHR ''v'' a \<in> set opts"
  proof (cases "opt = Short CHR ''v'' a")
    case True
    with step have "c1 = c\<lparr>global_log_level := Some LOG_LEVEL_VERBOSE, NO_FORK := True\<rparr>"
      by (simp add: CheckOpts_switch_verbose)
    then show ?thesis by simp
  next
    case False
    with Cons.prems(2) CheckOpts_switch_no_fork_kept [OF step] show ?thesis by auto
  qed
  with Cons.IH [OF rest] show ?case .
qed

lemma CheckOpts_loop_append:
  "CheckOpts_loop ext (xs @ ys) c =
     (case CheckOpts_loop ext xs c of
        Exited code \<Rightarrow> Exited code
      | Returned c' \<Rightarrow> CheckOpts_loop ext ys c')"
  by (induction xs arbitrary: c) (simp_all split: outcome.splits)

text \<open>
  Claim C10. The case \<open>'v'\<close> of the option switch sets the log level to verbose and sets
  \<open>NO_FORK\<close>. No option clears \<open>NO_FORK\<close>, so whenever \<open>-v\<close> is on a command line that
  \<open>CheckOpts\<close> accepts, \<open>NO_FORK\<close> holds afterwards, and \<open>StartServer\<close> then neither
  forks nor calls \<open>ActAsDaemon\<close>: the process stays in the foreground. Giving \<open>-F\<close> as
  well changes nothing in what \<open>CheckOpts\<close> returns.
\<close>

theorem verbose_stays_in_foreground:
  "CheckOpts_switch ext (Short CHR ''v'' a) c =
     Returned (c\<lparr>global_log_level := Some LOG_LEVEL_VERBOSE, NO_FORK := True\<rparr>)
   \<and> (Short CHR ''v'' a \<in> set opts \<and> CheckOpts ext opts args = Returned c' \<longrightarrow>
        NO_FORK c'
        \<and> StartServer_detach c' fork_result =
            ((if \<not> cli_ONCE c' then [Call ''Apoptosis''] else []), Returned ()))
   \<and> (Short CHR ''v'' a \<in> set opts \<longrightarrow>
        CheckOpts ext (opts @ [Short CHR ''F'' None]) args = CheckOpts ext opts args)"
proof -
  have nf: "NO_FORK c1" if "Short CHR ''v'' a \<in> set opts"
    and "CheckOpts_loop ext opts cli_initial = Returned c1" for c1
    using CheckOpts_loop_no_fork [OF that(2), of a] that(1) by simp
  have c2: "Short CHR ''v'' a \<in> set opts \<and> CheckOpts ext opts args = Returned c' \<longrightarrow>
        NO_FORK c'
        \<and> StartServer_detach c' fork_result =
            ((if \<not> cli_ONCE c' then [Call ''Apoptosis''] else []), Returned ())"
  proof (intro impI, elim conjE)
    assume v: "Short CHR ''v'' a \<in> set opts" and ok: "CheckOpts ext opts args = Returned c'"
    from ok have "CheckOpts_loop ext opts cli_initial = Returned c'"
      by (auto simp add: CheckOpts_def split: outcome.splits if_splits)
    from nf [OF v this] show "NO_FORK c'
        \<and> StartServer_detach c' fork_result =
            ((if \<not> cli_ONCE c' then [Call ''Apoptosis''] else []), Returned ())"
      by (simp add: StartServer_detach_def)
  qed
  have c3: "Short CHR ''v'' a \<in> set opts \<longrightarrow>
        CheckOpts ext (opts @ [Short CHR ''F'' None]) args = CheckOpts ext opts args"
  proof
    assume v: "Short CHR ''v'' a \<in> set opts"
    show "CheckOpts ext (opts @ [Short CHR ''F'' None]) args = CheckOpts ext opts args"
    proof (cases "CheckOpts_loop ext opts cli_initial")
      case (Exited code)
      then show ?thesis by (simp add: CheckOpts_def CheckOpts_loop_append)
    next
      case (Returned c1)
      from nf [OF v Returned] have "c1\<lparr>NO_FORK := True\<rparr> = c1" by simp
      with Returned show ?thesis
        by (simp add: CheckOpts_def CheckOpts_loop_append CheckOpts_switch_def)
    qed
  qed
  from CheckOpts_switch_verbose c2 c3 show ?thesis by blast
qed

theorem verbose_stays_in_foreground_witness:
  "Short CHR ''v'' None \<in> set [Short CHR ''g'' (Some ''info''), Short CHR ''v'' None]
   \<and> CheckOpts demo_cli_ext [Short CHR ''g'' (Some ''info''), Short CHR ''v'' None] [] =
       Returned (cli_initial\<lparr>global_log_level := Some LOG_LEVEL_VERBOSE, NO_FORK := True\<rparr>)
   \<and> NO_FORK (cli_initial\<lparr>global_log_level := Some LOG_LEVEL_VERBOSE, NO_FORK := True\<rparr>)
   \<and> (StartServer_detach (cli_initial\<lparr>global_log_level := Some LOG_LEVEL_VERBOSE, NO_FORK := True\<rparr>)
         4321 :: string effect list \<times> unit outcome) =
       ([Call ''Apoptosis''], Returned ())
   \<and> CheckOpts demo_cli_ext
         ([Short CHR ''g'' (Some ''info''), Short CHR ''v'' None] @ [Short CHR ''F'' None]) [] =
       CheckOpts demo_cli_ext [Short CHR ''g'' (Some ''info''), Short CHR ''v'' None] []"
proof -
  have h1: "Short CHR ''v'' None \<in> set [Short CHR ''g'' (Some ''info''), Short CHR ''v'' None]"
    by simp
  have h2: "CheckOpts demo_cli_ext [Short CHR ''g'' (Some ''info''), Short CHR ''v'' None] [] =
       Returned (cli_initial\<lparr>global_log_level := Some LOG_LEVEL_VERBOSE, NO_FORK := True\<rparr>)"
    by (simp add: CheckOpts_def CheckOpts_switch_def demo_cli_ext_def)
  have h3: "\<not> cli_ONCE (cli_initial\<lparr>global_log_level := Some LOG_LEVEL_VERBOSE, NO_FORK := True\<rparr>)"
    by (simp add: cli_initial_def)
  have inst: "Short CHR ''v'' None \<in> set [Short CHR ''g'' (Some ''info''), Short CHR ''v'' None]
      \<and> CheckOpts demo_cli_ext [Short CHR ''g'' (Some ''info''), Short CHR ''v'' None] [] =
          Returned (cli_initial\<lparr>global_log_level := Some LOG_LEVEL_VERBOSE, NO_FORK := True\<rparr>)
      \<longrightarrow>
        NO_FORK (cli_initial\<lparr>global_log_level := Some LOG_LEVEL_VERBOSE, NO_FORK := True\<rparr>)
        \<and> (StartServer_detach
               (cli_initial\<lparr>global_log_level := Some LOG_LEVEL_VERBOSE, NO_FORK := True\<rparr>)
               4321 :: string effect list \<times> unit outcome) =
            ((if \<not> cli_ONCE (cli_initial\<lparr>global_log_level := Some LOG_LEVEL_VERBOSE,
                                             NO_FORK := True\<rparr>)
              then [Call ''Apoptosis''] else []), Returned ())"
    and same: "Short CHR ''v'' None \<in> set [Short CHR ''g'' (Some ''info''), Short CHR ''v'' None]
      \<longrightarrow> CheckOpts demo_cli_ext
            ([Short CHR ''g'' (Some ''info''), Short CHR ''v'' None] @ [Short CHR ''F'' None]) [] =
          CheckOpts demo_cli_ext [Short CHR ''g'' (Some ''info''), Short CHR ''v'' None] []"
    using verbose_stays_in_foreground [of demo_cli_ext None cli_initial
        "[Short CHR ''g'' (Some ''info''), Short CHR ''v'' None]" "[]"
        "cli_initial\<lparr>global_log_level := Some LOG_LEVEL_VERBOSE, NO_FORK := True\<rparr>" 4321]
    by blast+
  from h1 h2 h3 inst same show ?thesis by simp
qed

end
